theory Spec2Isabelle
  imports Main "HOL-Library.AList" "HOL-Library.Multiset" "HOL-Library.Product_Lexorder"
begin

chapter \<open>The booking dispatcher of lambda-deploy\<close>

text \<open>
  A shallow embedding of the request dispatcher (\<^verbatim>\<open>src/index.js\<close>) and of the booking
  pipeline with date repair and availability pre-flight (the earlier \<^verbatim>\<open>index.js\<close>
  kept as \<^verbatim>\<open>unnamed/part_011\<close>), together with the part of the JavaScript runtime
  they rest on: JSON values and truthiness, and the \<^verbatim>\<open>Date\<close> object of ECMA-262.
\<close>

section \<open>ECMA-262 time values\<close>

text \<open>
  A time value is a number of milliseconds since the epoch; the day and calendar
  arithmetic below is that of ECMA-262, section 21.4.1 (Day, TimeWithinDay, DaysInYear,
  DayFromYear, YearFromTime, MonthFromTime, DateFromTime, MakeTime, MakeDay, MakeDate,
  TimeClip). All numbers that occur are integers below \<open>2^53\<close>, where the
  double-precision arithmetic of the runtime is exact.
\<close>

definition msPerDay :: int where "msPerDay = 86400000"
definition msPerHour :: int where "msPerHour = 3600000"
definition msPerMinute :: int where "msPerMinute = 60000"
definition msPerSecond :: int where "msPerSecond = 1000"

definition Day :: "int \<Rightarrow> int" where
  "Day t = t div msPerDay"

definition TimeWithinDay :: "int \<Rightarrow> int" where
  "TimeWithinDay t = t mod msPerDay"

definition DaysInYear :: "int \<Rightarrow> int" where
  "DaysInYear y =
     (if y mod 4 \<noteq> 0 then 365
      else if y mod 100 \<noteq> 0 then 366
      else if y mod 400 \<noteq> 0 then 365
      else 366)"

definition DayFromYear :: "int \<Rightarrow> int" where
  "DayFromYear y =
     365 * (y - 1970) + (y - 1969) div 4 - (y - 1901) div 100 + (y - 1601) div 400"

definition TimeFromYear :: "int \<Rightarrow> int" where
  "TimeFromYear y = msPerDay * DayFromYear y"

text \<open>
  \<open>YearFromTime t\<close> is the largest \<open>y\<close> with \<open>TimeFromYear y \<le> t\<close>. It is computed by a
  search from the estimate \<open>1970 + Day t div 365\<close>: down while the year starts after the
  day, then up while the next year starts on or before it.
\<close>

function yearDown :: "int \<Rightarrow> int \<Rightarrow> int" where
  "yearDown d y = (if d < DayFromYear y then yearDown d (y - 1) else y)"
  by pat_completeness auto
termination
proof (relation "measure (\<lambda>(d, y). nat (DayFromYear y - d))")
  show "wf (measure (\<lambda>(d, y). nat (DayFromYear y - d)))" by simp
next
  fix d y :: int
  assume less: "d < DayFromYear y"
  have a: "(y - 1 - 1969) div 4 \<le> (y - 1969) div 4"
    by (rule zdiv_mono1) simp_all
  have "(y - 1901) div 100 \<le> (y - 1 - 1901 + 100) div 100"
    by (rule zdiv_mono1) simp_all
  then have b: "(y - 1901) div 100 \<le> (y - 1 - 1901) div 100 + 1"
    by simp
  have c: "(y - 1 - 1601) div 400 \<le> (y - 1601) div 400"
    by (rule zdiv_mono1) simp_all
  have step: "\<And>p p' q q' r r' :: int. p \<le> p' \<Longrightarrow> q' \<le> q + 1 \<Longrightarrow> r \<le> r' \<Longrightarrow>
      365 * (y - 1 - 1970) + p - q + r < 365 * (y - 1970) + p' - q' + r'"
    by simp
  have "DayFromYear (y - 1) < DayFromYear y"
    unfolding DayFromYear_def by (rule step [OF a b c])
  with less show "((d, y - 1), (d, y)) \<in> measure (\<lambda>(d, y). nat (DayFromYear y - d))"
    by simp
qed

function yearUp :: "int \<Rightarrow> int \<Rightarrow> int" where
  "yearUp d y = (if DayFromYear (y + 1) \<le> d then yearUp d (y + 1) else y)"
  by pat_completeness auto
termination
proof (relation "measure (\<lambda>(d, y). nat (d + 1 - DayFromYear (y + 1)))")
  show "wf (measure (\<lambda>(d, y). nat (d + 1 - DayFromYear (y + 1))))" by simp
next
  fix d y :: int
  assume le: "DayFromYear (y + 1) \<le> d"
  have a: "(y + 1 - 1969) div 4 \<le> (y + 1 + 1 - 1969) div 4"
    by (rule zdiv_mono1) simp_all
  have "(y + 1 + 1 - 1901) div 100 \<le> (y + 1 - 1901 + 100) div 100"
    by (rule zdiv_mono1) simp_all
  then have b: "(y + 1 + 1 - 1901) div 100 \<le> (y + 1 - 1901) div 100 + 1"
    by simp
  have c: "(y + 1 - 1601) div 400 \<le> (y + 1 + 1 - 1601) div 400"
    by (rule zdiv_mono1) simp_all
  have step: "\<And>p p' q q' r r' :: int. p \<le> p' \<Longrightarrow> q' \<le> q + 1 \<Longrightarrow> r \<le> r' \<Longrightarrow>
      365 * (y + 1 - 1970) + p - q + r < 365 * (y + 1 + 1 - 1970) + p' - q' + r'"
    by simp
  have "DayFromYear (y + 1) < DayFromYear (y + 1 + 1)"
    unfolding DayFromYear_def by (rule step [OF a b c])
  with le show "((d, y + 1), (d, y)) \<in> measure (\<lambda>(d, y). nat (d + 1 - DayFromYear (y + 1)))"
    by simp
qed

declare yearDown.simps [simp del] yearUp.simps [simp del]

definition YearFromTime :: "int \<Rightarrow> int" where
  "YearFromTime t = yearUp (Day t) (yearDown (Day t) (1970 + Day t div 365))"

definition InLeapYear :: "int \<Rightarrow> bool" where
  "InLeapYear t = (DaysInYear (YearFromTime t) = 366)"

definition DayWithinYear :: "int \<Rightarrow> int" where
  "DayWithinYear t = Day t - DayFromYear (YearFromTime t)"

text \<open>
  The number of days of a year before its month \<open>m\<close> (0 is January), for a common and
  for a leap year: the thresholds of MonthFromTime and the offsets of DateFromTime.
\<close>

definition monthStart :: "bool \<Rightarrow> int \<Rightarrow> int" where
  "monthStart leap m =
     (if m \<le> 0 then 0
      else if m = 1 then 31
      else (if leap then 1 else 0) +
        (if m = 2 then 59 else if m = 3 then 90 else if m = 4 then 120
         else if m = 5 then 151 else if m = 6 then 181 else if m = 7 then 212
         else if m = 8 then 243 else if m = 9 then 273 else if m = 10 then 304
         else if m = 11 then 334 else 365))"

definition MonthFromTime :: "int \<Rightarrow> int" where
  "MonthFromTime t =
     (let d = DayWithinYear t; l = InLeapYear t in
      if d < monthStart l 1 then 0
      else if d < monthStart l 2 then 1
      else if d < monthStart l 3 then 2
      else if d < monthStart l 4 then 3
      else if d < monthStart l 5 then 4
      else if d < monthStart l 6 then 5
      else if d < monthStart l 7 then 6
      else if d < monthStart l 8 then 7
      else if d < monthStart l 9 then 8
      else if d < monthStart l 10 then 9
      else if d < monthStart l 11 then 10
      else 11)"

definition DateFromTime :: "int \<Rightarrow> int" where
  "DateFromTime t = DayWithinYear t - monthStart (InLeapYear t) (MonthFromTime t) + 1"

definition HourFromTime :: "int \<Rightarrow> int" where
  "HourFromTime t = (t div msPerHour) mod 24"

definition MinFromTime :: "int \<Rightarrow> int" where
  "MinFromTime t = (t div msPerMinute) mod 60"

definition SecFromTime :: "int \<Rightarrow> int" where
  "SecFromTime t = (t div msPerSecond) mod 60"

definition msFromTime :: "int \<Rightarrow> int" where
  "msFromTime t = t mod msPerSecond"

definition MakeTime :: "int \<Rightarrow> int \<Rightarrow> int \<Rightarrow> int \<Rightarrow> int" where
  "MakeTime h m s milli = h * msPerHour + m * msPerMinute + s * msPerSecond + milli"

definition MakeDay :: "int \<Rightarrow> int \<Rightarrow> int \<Rightarrow> int" where
  "MakeDay year month date =
     (let ym = year + month div 12; mn = month mod 12
      in DayFromYear ym + monthStart (DaysInYear ym = 366) mn + date - 1)"

definition MakeDate :: "int \<Rightarrow> int \<Rightarrow> int" where
  "MakeDate day time = day * msPerDay + time"

text \<open>A \<^verbatim>\<open>Date\<close> holds a time value or NaN (an invalid date): \<open>None\<close> is NaN.\<close>

type_synonym Date = "int option"

definition maxTime :: int where "maxTime = 8640000000000000"

definition TimeClip :: "int \<Rightarrow> Date" where
  "TimeClip t = (if maxTime < \<bar>t\<bar> then None else Some t)"

text \<open>
  The time zone of the host, as LocalTZA of ECMA-262: the offset of local time from
  UTC, in milliseconds. \<open>z t True\<close> is the offset at the time value \<open>t\<close>; \<open>z t False\<close> is the
  offset for the local time \<open>t\<close>, which the runtime chooses where a change of the clocks
  skips or repeats that local time (the offset before the change). The local getters
  and setters of \<^verbatim>\<open>Date\<close> read and write local time.
\<close>

type_synonym zone = "int \<Rightarrow> bool \<Rightarrow> int"

definition LocalTime :: "zone \<Rightarrow> int \<Rightarrow> int" where
  "LocalTime z t = t + z t True"

definition UTC :: "zone \<Rightarrow> int \<Rightarrow> int" where
  "UTC z t = t - z t False"

definition getFullYear :: "zone \<Rightarrow> int \<Rightarrow> int" where
  "getFullYear z t = YearFromTime (LocalTime z t)"

definition getMonth :: "zone \<Rightarrow> int \<Rightarrow> int" where
  "getMonth z t = MonthFromTime (LocalTime z t)"

definition getDate :: "zone \<Rightarrow> int \<Rightarrow> int" where
  "getDate z t = DateFromTime (LocalTime z t)"

definition getHours :: "zone \<Rightarrow> int \<Rightarrow> int" where
  "getHours z t = HourFromTime (LocalTime z t)"

definition getMinutes :: "zone \<Rightarrow> int \<Rightarrow> int" where
  "getMinutes z t = MinFromTime (LocalTime z t)"

text \<open>
  The getters and setters take the time value of a valid date; where the source can
  call them on an invalid date, the caller's model says what happens. A setter returns
  the new \<^verbatim>\<open>Date\<close>, which TimeClip makes invalid outside the range of time values.
\<close>

definition setFullYear :: "zone \<Rightarrow> int \<Rightarrow> int \<Rightarrow> Date" where
  "setFullYear z t0 y =
     (let t = LocalTime z t0
      in TimeClip (UTC z (MakeDate (MakeDay y (MonthFromTime t) (DateFromTime t))
                                   (TimeWithinDay t))))"

definition setDate :: "zone \<Rightarrow> int \<Rightarrow> int \<Rightarrow> Date" where
  "setDate z t0 dt =
     (let t = LocalTime z t0
      in TimeClip (UTC z (MakeDate (MakeDay (YearFromTime t) (MonthFromTime t) dt)
                                   (TimeWithinDay t))))"

definition setHours :: "zone \<Rightarrow> int \<Rightarrow> int \<Rightarrow> int \<Rightarrow> int \<Rightarrow> int \<Rightarrow> Date" where
  "setHours z t0 h m s milli =
     TimeClip (UTC z (MakeDate (Day (LocalTime z t0)) (MakeTime h m s milli)))"

text \<open>
  \<^verbatim>\<open>new Date(year, month, date)\<close>: local midnight of the day; a year from 0 to 99 counts
  from 1900.
\<close>

definition newDateYMD :: "zone \<Rightarrow> int \<Rightarrow> int \<Rightarrow> int \<Rightarrow> Date" where
  "newDateYMD z y m dt =
     (let yr = (if 0 \<le> y \<and> y \<le> 99 then 1900 + y else y)
      in TimeClip (UTC z (MakeDate (MakeDay yr m dt) (MakeTime 0 0 0 0))))"

text \<open>The number of days of month \<open>m\<close>.\<close>

definition monthLength :: "bool \<Rightarrow> int \<Rightarrow> int" where
  "monthLength leap m = monthStart leap (m + 1) - monthStart leap m"

subsection \<open>toISOString\<close>

definition digitChar :: "int \<Rightarrow> char" where
  "digitChar d = ''0123456789'' ! nat d"

definition pad2 :: "int \<Rightarrow> string" where
  "pad2 n = [digitChar (n div 10 mod 10), digitChar (n mod 10)]"

definition pad3 :: "int \<Rightarrow> string" where
  "pad3 n = digitChar (n div 100 mod 10) # pad2 n"

definition pad4 :: "int \<Rightarrow> string" where
  "pad4 n = digitChar (n div 1000 mod 10) # pad3 n"

definition pad6 :: "int \<Rightarrow> string" where
  "pad6 n = digitChar (n div 100000 mod 10) # digitChar (n div 10000 mod 10) # pad4 n"

text \<open>
  The ISO form \<^verbatim>\<open>YYYY-MM-DDTHH:mm:ss.sssZ\<close> of a time value, in UTC; a year outside
  0 to 9999 is written with a sign and six digits.
\<close>

definition isoYear :: "int \<Rightarrow> string" where
  "isoYear y =
     (if 0 \<le> y \<and> y \<le> 9999 then pad4 y
      else (if y < 0 then ''-'' else ''+'') @ pad6 \<bar>y\<bar>)"

definition isoString :: "int \<Rightarrow> string" where
  "isoString t =
     isoYear (YearFromTime t) @ ''-'' @ pad2 (MonthFromTime t + 1) @ ''-'' @
     pad2 (DateFromTime t) @ ''T'' @ pad2 (HourFromTime t) @ '':'' @ pad2 (MinFromTime t) @
     '':'' @ pad2 (SecFromTime t) @ ''.'' @ pad3 (msFromTime t) @ ''Z''"

section \<open>JSON values and the runtime's view of them\<close>

text \<open>
  A request body, a parameter object and a response body are JSON values. A number is
  held as its text, the one that \<^verbatim>\<open>String(n)\<close> gives (\<^verbatim>\<open>45\<close>, \<^verbatim>\<open>3.7\<close>, \<^verbatim>\<open>1e+21\<close>; zero,
  negative zero too, is \<^verbatim>\<open>0\<close>): the code tests a number for zero, compares it and
  prints it, and the text says each. An object is the list of its own properties, read
  by \<open>map_of\<close>; \<open>None\<close> stands for \<^verbatim>\<open>undefined\<close>.
\<close>

datatype json =
    JNull
  | JBool bool
  | JNum string
  | JStr string
  | JArr "json list"
  | JObj "(string \<times> json) list"

type_synonym object = "(string \<times> json) list"

type_synonym jsval = "json option"

fun truthy :: "json \<Rightarrow> bool" where
  "truthy JNull = False"
| "truthy (JBool b) = b"
| "truthy (JNum n) = (n \<noteq> ''0'')"
| "truthy (JStr s) = (s \<noteq> [])"
| "truthy (JArr xs) = True"
| "truthy (JObj kvs) = True"

definition truthyV :: "jsval \<Rightarrow> bool" where
  "truthyV v = (case v of None \<Rightarrow> False | Some j \<Rightarrow> truthy j)"

text \<open>\<^verbatim>\<open>a || b\<close>\<close>

definition orElse :: "jsval \<Rightarrow> jsval \<Rightarrow> jsval" where
  "orElse a b = (if truthyV a then a else b)"

text \<open>
  An object literal, as \<^verbatim>\<open>JSON.stringify\<close> writes it: a property whose value is
  \<^verbatim>\<open>undefined\<close> is left out.
\<close>

definition mkObj :: "(string \<times> jsval) list \<Rightarrow> json" where
  "mkObj kvs = JObj (List.map_filter (\<lambda>(k, v). map_option (\<lambda>j. (k, j)) v) kvs)"

text \<open>
  Reading a property of a value that is neither \<^verbatim>\<open>null\<close> nor \<^verbatim>\<open>undefined\<close>. The
  source reads named properties only (never an index or \<^verbatim>\<open>length\<close>), which arrays,
  strings, numbers and booleans do not have.
\<close>

fun member :: "json \<Rightarrow> string \<Rightarrow> jsval" where
  "member (JObj kvs) k = map_of kvs k"
| "member v k = None"

text \<open>\<^verbatim>\<open>v?.k\<close>: \<^verbatim>\<open>undefined\<close> when \<open>v\<close> is \<^verbatim>\<open>null\<close> or \<^verbatim>\<open>undefined\<close>.\<close>

definition optMember :: "jsval \<Rightarrow> string \<Rightarrow> jsval" where
  "optMember v k = (case v of None \<Rightarrow> None | Some j \<Rightarrow> member j k)"

text \<open>
  The properties every object inherits from \<^verbatim>\<open>Object.prototype\<close>. Reading one of them
  from an object that has no own property of that name gives a function (or the
  prototype itself), which is truthy.
\<close>

definition objectPrototypeKeys :: "string list" where
  "objectPrototypeKeys =
     [''constructor'', ''__defineGetter__'', ''__defineSetter__'', ''hasOwnProperty'',
      ''__lookupGetter__'', ''__lookupSetter__'', ''isPrototypeOf'', ''propertyIsEnumerable'',
      ''toString'', ''valueOf'', ''__proto__'', ''toLocaleString'']"

text \<open>The test \<^verbatim>\<open>params[key]\<close> of an object under an arbitrary key.\<close>

definition truthyAt :: "object \<Rightarrow> string \<Rightarrow> bool" where
  "truthyAt obj k =
     (case map_of obj k of
        Some j \<Rightarrow> truthy j
      | None \<Rightarrow> k \<in> set objectPrototypeKeys)"

text \<open>
  \<^verbatim>\<open>{...v}\<close>: the own enumerable properties of \<open>v\<close>. An array spreads into its
  elements and a string into its characters, under their indices; \<^verbatim>\<open>null\<close>, numbers
  and booleans have none.
\<close>

fun showNat :: "nat \<Rightarrow> string" where
  "showNat n = (if n < 10 then [digitChar (int n)]
                else showNat (n div 10) @ [digitChar (int (n mod 10))])"

declare showNat.simps [simp del]

definition indexed :: "json list \<Rightarrow> object" where
  "indexed xs = map (\<lambda>(i, x). (showNat i, x)) (enumerate 0 xs)"

fun spread :: "json \<Rightarrow> object" where
  "spread (JObj kvs) = kvs"
| "spread (JArr xs) = indexed xs"
| "spread (JStr s) = indexed (map (\<lambda>c. JStr [c]) s)"
| "spread v = []"

text \<open>The text of a value inside a template literal.\<close>

fun intercalate :: "string \<Rightarrow> string list \<Rightarrow> string" where
  "intercalate sep [] = []"
| "intercalate sep [x] = x"
| "intercalate sep (x # y # ys) = x @ sep @ intercalate sep (y # ys)"

fun jsonText :: "json \<Rightarrow> string" where
  "jsonText JNull = ''null''"
| "jsonText (JBool b) = (if b then ''true'' else ''false'')"
| "jsonText (JNum n) = n"
| "jsonText (JStr s) = s"
| "jsonText (JArr xs) = intercalate '','' (map (\<lambda>x. if x = JNull then [] else jsonText x) xs)"
| "jsonText (JObj kvs) = ''[object Object]''"

definition toText :: "jsval \<Rightarrow> string" where
  "toText v = (case v of None \<Rightarrow> ''undefined'' | Some j \<Rightarrow> jsonText j)"

text \<open>
  Whether a value has a text. A template literal, \<^verbatim>\<open>new Date(v)\<close> and \<^verbatim>\<open>parseInt(v)\<close>
  convert an object through its \<^verbatim>\<open>toString\<close>. No value of JSON is a function, so an
  object with a property \<^verbatim>\<open>toString\<close> of its own hides the inherited one and the
  conversion throws a TypeError; so does the conversion of an array that holds such an
  object, since it converts every element.
\<close>

fun printable :: "json \<Rightarrow> bool" where
  "printable (JObj kvs) = (map_of kvs ''toString'' = None)"
| "printable (JArr xs) = list_all printable xs"
| "printable v = True"

definition printableV :: "jsval \<Rightarrow> bool" where
  "printableV v = (case v of None \<Rightarrow> True | Some j \<Rightarrow> printable j)"

section \<open>Errors and responses\<close>

text \<open>
  A thrown error with the properties the code reads: the classes of
  \<^verbatim>\<open>utils/errorHandler.js\<close> set \<^verbatim>\<open>name\<close>, \<^verbatim>\<open>statusCode\<close> and \<^verbatim>\<open>field\<close> or
  \<^verbatim>\<open>resource\<close>; the scheduling client adds \<^verbatim>\<open>source\<close> and \<^verbatim>\<open>details\<close>.
\<close>

record error =
  err_name :: string
  err_message :: string
  err_statusCode :: "int option"
  err_field :: "string option"
  err_resource :: "string option"
  err_source :: "string option"
  err_details :: jsval

definition plainError :: "string \<Rightarrow> string \<Rightarrow> error" where
  "plainError nm msg =
     \<lparr>err_name = nm, err_message = msg, err_statusCode = None, err_field = None,
      err_resource = None, err_source = None, err_details = None\<rparr>"

definition ValidationError :: "string \<Rightarrow> string \<Rightarrow> error" where
  "ValidationError msg fld =
     (plainError ''ValidationError'' msg)\<lparr>err_statusCode := Some 400, err_field := Some fld\<rparr>"

definition TypeError :: "string \<Rightarrow> error" where
  "TypeError msg = plainError ''TypeError'' msg"

definition RangeError :: error where
  "RangeError = plainError ''RangeError'' ''Invalid time value''"

text \<open>The error of converting a value that has no text.\<close>

definition notPrimitive :: error where
  "notPrimitive = TypeError ''Cannot convert object to primitive value''"

text \<open>\<^verbatim>\<open>toISOString\<close> throws on an invalid date.\<close>

definition toISOString :: "Date \<Rightarrow> error + string" where
  "toISOString d = (case d of None \<Rightarrow> Inl RangeError | Some t \<Rightarrow> Inr (isoString t))"

text \<open>
  A response; its body is the JSON value that the code serialises with
  \<^verbatim>\<open>JSON.stringify\<close> (and that \<^verbatim>\<open>JSON.parse\<close> gives back).
\<close>

record response =
  statusCode :: int
  headers :: "(string \<times> string) list option"
  body :: json

text \<open>\<^verbatim>\<open>handleError\<close> of \<^verbatim>\<open>utils/errorHandler.js\<close>.\<close>

definition handleError :: "error \<Rightarrow> response" where
  "handleError e =
     \<lparr>statusCode = (case err_statusCode e of
                      None \<Rightarrow> 500
                    | Some c \<Rightarrow> if c \<noteq> 0 then c else 500),
      headers = Some [(''Content-Type'', ''application/json''),
                      (''Access-Control-Allow-Origin'', ''*'')],
      body = JObj
        ([(''success'', JBool False),
          (''error'', JStr (if err_message e \<noteq> [] then err_message e
                           else ''An unknown error occurred'')),
          (''type'', JStr (if err_name e \<noteq> [] then err_name e else ''Error''))]
         @ (case err_field e of
              None \<Rightarrow> []
            | Some f \<Rightarrow> if f \<noteq> [] then [(''field'', JStr f)] else [])
         @ (case err_resource e of
              None \<Rightarrow> []
            | Some r \<Rightarrow> if r \<noteq> [] then [(''resource'', JStr r)] else []))\<rparr>"

section \<open>The dispatcher: \<^verbatim>\<open>exports.handler\<close> of \<^verbatim>\<open>src/index.js\<close>\<close>

text \<open>
  The inbound event. Its body is absent (or empty), a text that \<^verbatim>\<open>JSON.parse\<close>
  rejects, or a text that parses to a JSON value (an event that carries an object in
  place of the text is used as it is, and is \<open>Parsed\<close> too).
\<close>

datatype raw_body = NoBody | BadJSON | Parsed json

record event =
  httpMethod :: "string option"
  path :: "string option"
  queryStringParameters :: "(string \<times> string) list option"
  rawBody :: raw_body

definition VALID_ACTIONS :: "string list" where
  "VALID_ACTIONS =
     [''createBooking'', ''getAvailableSlots'', ''rescheduleBooking'', ''cancelBooking'',
      ''getBookingDetails'', ''checkAvailability'', ''findAvailability'',
      ''handleVapiWebhook'', ''initializeAssistant'', ''trialStarted'']"

text \<open>The list the handler tests the last path segment against (lines 83 and 84).\<close>

definition knownActions :: "string list" where
  "knownActions =
     [''createBooking'', ''getAvailableSlots'', ''rescheduleBooking'', ''cancelBooking'',
      ''getBookingDetails'', ''checkAvailability'']"

definition optionsResponse :: response where
  "optionsResponse =
     \<lparr>statusCode = 200,
      headers = Some [(''Content-Type'', ''application/json''),
                      (''Access-Control-Allow-Origin'', ''*''),
                      (''Access-Control-Allow-Methods'', ''GET, POST, OPTIONS''),
                      (''Access-Control-Allow-Headers'', ''Content-Type'')],
      body = JObj [(''success'', JBool True)]\<rparr>"

text \<open>Lines 53 to 60: a body that does not parse is replaced by the empty object.\<close>

definition parseBody :: "raw_body \<Rightarrow> json" where
  "parseBody b = (case b of NoBody \<Rightarrow> JObj [] | BadJSON \<Rightarrow> JObj [] | Parsed v \<Rightarrow> v)"

text \<open>\<^verbatim>\<open>s.split(c)\<close> for a separator of one character.\<close>

fun splitOn :: "char \<Rightarrow> string \<Rightarrow> string list" where
  "splitOn c [] = [[]]"
| "splitOn c (x # xs) =
     (if x = c then [] # splitOn c xs
      else (case splitOn c xs of
              [] \<Rightarrow> [[x]]
            | w # ws \<Rightarrow> (x # w) # ws))"

text \<open>Lines 63 and 64.\<close>

definition pathParts :: "event \<Rightarrow> string list" where
  "pathParts ev =
     (case path ev of
        None \<Rightarrow> []
      | Some p \<Rightarrow> if p = [] then [] else filter (\<lambda>s. s \<noteq> []) (splitOn CHR ''/'' p))"

definition lastPathPart :: "event \<Rightarrow> string" where
  "lastPathPart ev = (if pathParts ev = [] then [] else last (pathParts ev))"

text \<open>Line 67.\<close>

definition queryParams :: "event \<Rightarrow> (string \<times> string) list" where
  "queryParams ev = (case queryStringParameters ev of None \<Rightarrow> [] | Some q \<Rightarrow> q)"

text \<open>
  Lines 71 to 99: the action, from the path, the query string and the parsed body, in
  that order. Reading \<^verbatim>\<open>body.action\<close> throws when the body parsed to \<^verbatim>\<open>null\<close>.
\<close>

definition resolveAction :: "event \<Rightarrow> json \<Rightarrow> error + json" where
  "resolveAction ev bdy =
     (if lastPathPart ev = ''createBooking'' \<or> path ev = Some ''/createBooking''
      then Inr (JStr ''createBooking'')
      else if truthyV (map_option JStr (map_of (queryParams ev) ''action''))
      then Inr (JStr (the (map_of (queryParams ev) ''action'')))
      else if lastPathPart ev \<noteq> []
      then (if lastPathPart ev \<in> set knownActions
            then Inr (JStr (lastPathPart ev))
            else Inr (JStr ''handleVapiWebhook''))
      else if bdy = JNull
      then Inl (TypeError ''Cannot read properties of null (reading 'action')'')
      else if truthyV (member bdy ''action'')
      then Inr (the (member bdy ''action''))
      else Inr (JStr ''handleVapiWebhook''))"

text \<open>
  Lines 102 to 114: the parameters are a copy of the body; the action is added when the
  copy has none; then every query parameter is copied in where the parameters hold
  nothing truthy under its key.
\<close>

definition copyQueryParam :: "(string \<times> string) list \<Rightarrow> string \<Rightarrow> object \<Rightarrow> object" where
  "copyQueryParam q k params =
     (if \<not> truthyAt params k
      then (case map_of q k of
              None \<Rightarrow> params
            | Some v \<Rightarrow> AList.update k (JStr v) params)
      else params)"

definition mergeParams :: "json \<Rightarrow> json \<Rightarrow> (string \<times> string) list \<Rightarrow> object" where
  "mergeParams bdy action q =
     (let params = spread bdy;
          params = (if \<not> truthyAt params ''action''
                    then AList.update ''action'' action params else params)
      in fold (copyQueryParam q) (map fst q) params)"

text \<open>Lines 157 to 163.\<close>

definition withCors :: "response \<Rightarrow> response" where
  "withCors r =
     r\<lparr>headers := Some
        (AList.update ''Access-Control-Allow-Headers'' ''Content-Type''
          (AList.update ''Access-Control-Allow-Methods'' ''GET, POST, OPTIONS''
            (AList.update ''Access-Control-Allow-Origin'' ''*''
              (case headers r of None \<Rightarrow> [] | Some h \<Rightarrow> h))))\<rparr>"

text \<open>
  The ten operations the handler routes to. An operation takes the parameters and the
  state of the process (the shared configuration); it returns a response or throws,
  and leaves a state.
\<close>

type_synonym 's operation = "jsval \<Rightarrow> 's \<Rightarrow> (error + response) \<times> 's"

record 's operations =
  op_initializeAssistant :: "'s operation"
  op_trialStarted :: "'s operation"
  op_handleVapiWebhook :: "'s operation"
  op_checkAvailability :: "'s operation"
  op_findAvailability :: "'s operation"
  op_getAvailableSlots :: "'s operation"
  op_createBooking :: "'s operation"
  op_rescheduleBooking :: "'s operation"
  op_cancelBooking :: "'s operation"
  op_getBookingDetails :: "'s operation"

text \<open>Lines 121 to 154: the \<^verbatim>\<open>switch\<close> on the action.\<close>

definition dispatch :: "'s operations \<Rightarrow> json \<Rightarrow> object \<Rightarrow> 's \<Rightarrow> (error + response) \<times> 's" where
  "dispatch ops action params s =
     (if action = JStr ''initializeAssistant'' then op_initializeAssistant ops (Some (JObj params)) s
      else if action = JStr ''trialStarted'' then op_trialStarted ops (Some (JObj params)) s
      else if action = JStr ''handleVapiWebhook'' then op_handleVapiWebhook ops (Some (JObj params)) s
      else if action = JStr ''checkAvailability'' then op_checkAvailability ops (Some (JObj params)) s
      else if action = JStr ''findAvailability'' then op_findAvailability ops (Some (JObj params)) s
      else if action = JStr ''getAvailableSlots'' then op_getAvailableSlots ops (Some (JObj params)) s
      else if action = JStr ''createBooking'' then op_createBooking ops (Some (JObj params)) s
      else if action = JStr ''rescheduleBooking'' then op_rescheduleBooking ops (Some (JObj params)) s
      else if action = JStr ''cancelBooking'' then op_cancelBooking ops (Some (JObj params)) s
      else if action = JStr ''getBookingDetails'' then op_getBookingDetails ops (Some (JObj params)) s
      else (Inl (ValidationError ''Invalid action specified'' ''action''), s))"

text \<open>
  The handler (lines 30 to 169). An error thrown anywhere after the \<^verbatim>\<open>OPTIONS\<close> test
  is turned into a response by \<^verbatim>\<open>handleError\<close>; line 117 writes the action into a
  template literal, which throws for an action that has no text.
\<close>

definition handler :: "'s operations \<Rightarrow> event \<Rightarrow> 's \<Rightarrow> response \<times> 's" where
  "handler ops ev s =
     (if httpMethod ev = Some ''OPTIONS'' then (optionsResponse, s)
      else
        (let bdy = parseBody (rawBody ev) in
         case resolveAction ev bdy of
           Inl e \<Rightarrow> (handleError e, s)
         | Inr action \<Rightarrow>
             (let params = mergeParams bdy action (queryParams ev)
              in if \<not> printable action then (handleError notPrimitive, s)
                 else (case dispatch ops action params s of
                         (Inl e, s') \<Rightarrow> (handleError e, s')
                       | (Inr result, s') \<Rightarrow> (withCors result, s')))))"

section \<open>Operations of \<^verbatim>\<open>src/index.js\<close>\<close>

text \<open>
  The shared configuration (\<^verbatim>\<open>config.cal\<close> of \<^verbatim>\<open>src/config.js\<close>): one object for the
  whole process, read by every request and by the scheduling client.
\<close>

record config =
  cal_apiKey :: json
  cal_eventTypeId :: json
  cal_username :: json

text \<open>
  An availability slot, as the data model of the specification has it: the instant it
  starts at.
\<close>

record slot =
  time :: int

text \<open>
  What the code takes from outside: the time zone of the host, the clock (\<open>now\<close> is the
  first reading of a request, \<open>later\<close> the second), the runtime's parsers and printers
  (\<^verbatim>\<open>Date.parse\<close> with its implementation-defined formats, \<^verbatim>\<open>toLocaleString\<close>,
  \<^verbatim>\<open>JSON.parse\<close> of a value's text; \<open>None\<close> is NaN, respectively a SyntaxError), and
  the clients of the scheduling provider, which read the shared configuration and
  return data or throw. \<open>calApi_getAvailability\<close> stands for the availability query
  followed by \<^verbatim>\<open>formatAvailabilityForVoice\<close>: it returns the formatted slots.
\<close>

record env =
  LocalTZA :: zone
  now :: int
  later :: int
  Date_parse :: "json \<Rightarrow> int option"
  toLocaleString :: "Date \<Rightarrow> string"
  JSON_parse :: "json \<Rightarrow> json option"
  calApi_getEventTypeAvailabilityV1 :: "config \<Rightarrow> json \<Rightarrow> error + json"
  calApi_getAvailabilityV1 :: "config \<Rightarrow> int \<Rightarrow> error + json"
  calApi_getSlots :: "config \<Rightarrow> json \<Rightarrow> error + json"
  calApi_getAvailability :: "config \<Rightarrow> jsval \<Rightarrow> string \<Rightarrow> string \<Rightarrow> jsval \<Rightarrow> error + slot list"
  calApi_createBooking :: "config \<Rightarrow> json \<Rightarrow> error + json"

text \<open>\<^verbatim>\<open>new Date(v)\<close>: it throws for a value that has no text.\<close>

definition newDate :: "env \<Rightarrow> json \<Rightarrow> error + Date" where
  "newDate env v =
     (if \<not> printable v then Inl notPrimitive
      else Inr (case Date_parse env v of None \<Rightarrow> None | Some t \<Rightarrow> TimeClip t))"

definition nullish :: "jsval \<Rightarrow> bool" where
  "nullish v = (v = None \<or> v = Some JNull)"

text \<open>\<^verbatim>\<open>p.k\<close> of parameters that are neither \<^verbatim>\<open>null\<close> nor \<^verbatim>\<open>undefined\<close>.\<close>

definition param :: "jsval \<Rightarrow> string \<Rightarrow> jsval" where
  "param p k = (case p of None \<Rightarrow> None | Some j \<Rightarrow> member j k)"

text \<open>The error of reading the property \<open>k\<close> of \<open>v\<close>, which is \<^verbatim>\<open>null\<close> or \<^verbatim>\<open>undefined\<close>.\<close>

definition quoted :: "string \<Rightarrow> string" where
  "quoted k = CHR 0x27 # k @ [CHR 0x27]"

definition cannotRead :: "jsval \<Rightarrow> string \<Rightarrow> error" where
  "cannotRead v k =
     TypeError (''Cannot read properties of '' @ toText v @ '' (reading '' @ quoted k @ '')'')"

text \<open>\<^verbatim>\<open>checkAvailability\<close> (lines 504 to 546).\<close>

definition checkAvailability :: "env \<Rightarrow> jsval \<Rightarrow> config \<Rightarrow> (error + response) \<times> config" where
  "checkAvailability env params cfg =
     (if nullish params then (Inr (handleError (cannotRead params ''startDate'')), cfg)
      else if \<not> truthyV (param params ''startDate'')
      then (Inr (handleError (ValidationError ''Start date is required'' ''startDate'')), cfg)
      else if \<not> truthyV (param params ''endDate'')
      then (Inr (handleError (ValidationError ''End date is required'' ''endDate'')), cfg)
      else
        (let apiParams = mkObj
               [(''startTime'', param params ''startDate''),
                (''endTime'', param params ''endDate''),
                (''username'', orElse (param params ''username'') (Some (cal_username cfg))),
                (''eventTypeId'', orElse (param params ''eventTypeId'') (Some (cal_eventTypeId cfg))),
                (''apiKey'', orElse (param params ''apiKey'') (Some (cal_apiKey cfg)))]
         in case calApi_getEventTypeAvailabilityV1 env cfg apiParams of
              Inl e \<Rightarrow> (Inr (handleError e), cfg)
            | Inr availabilityData \<Rightarrow>
                (Inr \<lparr>statusCode = 200, headers = None,
                      body = JObj [(''success'', JBool True),
                                   (''availability'', availabilityData)]\<rparr>, cfg)))"

text \<open>
  \<^verbatim>\<open>parseInt(v, 10)\<close> of a value that has a text: the integer that the text starts
  with, after white space and a sign; \<open>None\<close> is NaN. The value is the integer that
  the digits write; the runtime rounds it to a number, which leaves an integer below
  \<open>2^53\<close> as it is.
\<close>

definition isSpace :: "char \<Rightarrow> bool" where
  "isSpace c = (c \<in> set [CHR '' '', CHR 0x09, CHR 0x0A, CHR 0x0B, CHR 0x0C, CHR 0x0D])"

definition isDigit :: "char \<Rightarrow> bool" where
  "isDigit c = (c \<in> set ''0123456789'')"

definition digitVal :: "char \<Rightarrow> int" where
  "digitVal c = int (of_char c) - 48"

definition parseIntStr :: "string \<Rightarrow> int option" where
  "parseIntStr s =
     (let s1 = dropWhile isSpace s;
          neg = (s1 \<noteq> [] \<and> hd s1 = CHR ''-'');
          s2 = (if s1 \<noteq> [] \<and> (hd s1 = CHR ''-'' \<or> hd s1 = CHR ''+'') then tl s1 else s1);
          ds = takeWhile isDigit s2
      in if ds = [] then None
         else Some ((if neg then - 1 else 1) * foldl (\<lambda>a c. 10 * a + digitVal c) 0 ds))"

definition parseInt10 :: "json \<Rightarrow> int option" where
  "parseInt10 v = parseIntStr (jsonText v)"

text \<open>
  \<^verbatim>\<open>findAvailability\<close> (lines 555 to 588). Line 572 assigns the key of the request to
  the shared configuration.
\<close>

definition findAvailability :: "env \<Rightarrow> jsval \<Rightarrow> config \<Rightarrow> (error + response) \<times> config" where
  "findAvailability env params cfg =
     (if nullish params then (Inr (handleError (cannotRead params ''id'')), cfg)
      else if \<not> truthyV (param params ''id'')
      then (Inr (handleError (ValidationError ''Availability ID is required'' ''id'')), cfg)
      else if \<not> printable (the (param params ''id''))
      then (Inr (handleError notPrimitive), cfg)
      else
        (case parseInt10 (the (param params ''id'')) of
           None \<Rightarrow> (Inr (handleError (ValidationError ''Invalid availability ID'' ''id'')), cfg)
         | Some availabilityId \<Rightarrow>
             (let cfg' = (if truthyV (param params ''apiKey'')
                          then cfg\<lparr>cal_apiKey := the (param params ''apiKey'')\<rparr>
                          else cfg)
              in case calApi_getAvailabilityV1 env cfg' availabilityId of
                   Inl e \<Rightarrow> (Inr (handleError e), cfg')
                 | Inr availability \<Rightarrow>
                     (Inr \<lparr>statusCode = 200, headers = None,
                           body = JObj [(''success'', JBool True),
                                        (''availability'', availability)]\<rparr>, cfg'))))"

text \<open>
  \<^verbatim>\<open>getAvailableSlots\<close> (lines 597 to 671), in the order of the source: the default
  times, the key of the request written to the shared configuration (line 627), the
  event type, the log entry that calls \<^verbatim>\<open>apiKey.slice\<close> (which only a text and an
  array have), and the query.
\<close>

definition defaultEndTime :: "env \<Rightarrow> json \<Rightarrow> error + json" where
  "defaultEndTime env startTime =
     (case newDate env startTime of
        Inl e \<Rightarrow> Inl e
      | Inr None \<Rightarrow> Inl RangeError
      | Inr (Some start) \<Rightarrow>
          (case toISOString (setDate (LocalTZA env) start (getDate (LocalTZA env) start + 14)) of
             Inl e \<Rightarrow> Inl e
           | Inr s \<Rightarrow> Inr (JStr s)))"

definition hasSlice :: "json \<Rightarrow> bool" where
  "hasSlice v = (case v of JStr s \<Rightarrow> True | JArr xs \<Rightarrow> True | _ \<Rightarrow> False)"

definition getAvailableSlots :: "env \<Rightarrow> jsval \<Rightarrow> config \<Rightarrow> (error + response) \<times> config" where
  "getAvailableSlots env params cfg =
     (if nullish params then (Inr (handleError (cannotRead params ''startTime'')), cfg)
      else
        (let startTime0 = orElse (orElse (param params ''startTime'') (param params ''startDate''))
                                 (param params ''start'');
             endTime0 = orElse (orElse (param params ''endTime'') (param params ''endDate''))
                               (param params ''end'');
             startTime = (if truthyV startTime0 then the startTime0
                          else JStr (isoString (now env)))
         in case (if truthyV endTime0 then Inr (the endTime0) else defaultEndTime env startTime) of
              Inl e \<Rightarrow> (Inr (handleError e), cfg)
            | Inr endTime \<Rightarrow>
                (let apiKey = the (orElse (orElse (param params ''apiKey'') (param params ''api_key''))
                                          (Some (cal_apiKey cfg)));
                     cfg' = (if truthy apiKey \<and> apiKey \<noteq> cal_apiKey cfg
                             then cfg\<lparr>cal_apiKey := apiKey\<rparr> else cfg);
                     eventTypeId = the (orElse (orElse (param params ''eventTypeId'')
                                                       (param params ''event_type_id''))
                                               (Some (cal_eventTypeId cfg')))
                 in if \<not> truthy eventTypeId
                    then (Inr (handleError (ValidationError ''Event type ID is required''
                                                           ''eventTypeId'')), cfg')
                    else if truthy apiKey \<and> \<not> hasSlice apiKey
                    then (Inr (handleError (TypeError ''apiKey.slice is not a function'')), cfg')
                    else
                      (case calApi_getSlots env cfg'
                              (JObj [(''startTime'', startTime), (''endTime'', endTime),
                                     (''eventTypeId'', eventTypeId),
                                     (''apiKey'', cal_apiKey cfg')]) of
                         Inl e \<Rightarrow> (Inr (handleError e), cfg')
                       | Inr slots \<Rightarrow>
                           (Inr \<lparr>statusCode = 200,
                                 headers = Some
                                   [(''Content-Type'', ''application/json''),
                                    (''Access-Control-Allow-Origin'', ''*''),
                                    (''Access-Control-Allow-Methods'', ''GET, POST, OPTIONS''),
                                    (''Access-Control-Allow-Headers'', ''Content-Type'')],
                                 body = JObj [(''success'', JBool True), (''slots'', slots)]\<rparr>,
                            cfg')))))"

section \<open>The voice webhook's function calls: \<^verbatim>\<open>handleFunctionCall\<close>\<close>

text \<open>The five operations a function call can name.\<close>

record 's function_table =
  fn_checkAvailability :: "'s operation"
  fn_createBooking :: "'s operation"
  fn_rescheduleBooking :: "'s operation"
  fn_cancelBooking :: "'s operation"
  fn_getBookingDetails :: "'s operation"

text \<open>Lines 389 to 405: the name and the parameters of the call.\<close>

definition functionNameOf :: "object \<Rightarrow> jsval" where
  "functionNameOf b =
     orElse (map_of b ''function'')
            (if nullish (map_of b ''functionCall'') then None
             else optMember (map_of b ''functionCall'') ''name'')"

definition parametersOf :: "env \<Rightarrow> object \<Rightarrow> jsval" where
  "parametersOf env b =
     (let fc = (if nullish (map_of b ''functionCall'') then None else map_of b ''functionCall'')
      in if truthyV (map_of b ''parameters'') then map_of b ''parameters''
         else if truthyV (optMember fc ''parameters'') then optMember fc ''parameters''
         else if truthyV (optMember fc ''arguments'')
         then (case JSON_parse env (the (optMember fc ''arguments'')) of
                 None \<Rightarrow> Some (JObj [])
               | Some v \<Rightarrow> Some v)
         else None)"

text \<open>
  Lines 415 to 433: the \<^verbatim>\<open>switch\<close> on the name. The error of an unknown name holds
  the name in a template literal.
\<close>

definition callFunction :: "'s function_table \<Rightarrow> jsval \<Rightarrow> jsval \<Rightarrow> 's \<Rightarrow> (error + response) \<times> 's" where
  "callFunction fns functionName parameters s =
     (if functionName = Some (JStr ''checkAvailability'') then fn_checkAvailability fns parameters s
      else if functionName = Some (JStr ''createBooking'') then fn_createBooking fns parameters s
      else if functionName = Some (JStr ''rescheduleBooking'') then fn_rescheduleBooking fns parameters s
      else if functionName = Some (JStr ''cancelBooking'') then fn_cancelBooking fns parameters s
      else if functionName = Some (JStr ''getBookingDetails'') then fn_getBookingDetails fns parameters s
      else if \<not> printableV functionName then (Inl notPrimitive, s)
      else (Inl (ValidationError (''Unknown function: '' @ toText functionName) ''function''), s))"

text \<open>
  Lines 436 to 455: the response of the operation, as the body of the envelope. A
  \<^verbatim>\<open>createBooking\<close> that ended in a conflict with alternatives is cut down to four
  fields; reading \<^verbatim>\<open>alternativeSlots\<close> of a body that is \<^verbatim>\<open>null\<close> throws.
\<close>

definition functionResponseOf :: "jsval \<Rightarrow> response \<Rightarrow> error + json" where
  "functionResponseOf functionName r =
     (if functionName = Some (JStr ''createBooking'') \<and> statusCode r = 409
      then (if body r = JNull
            then Inl (TypeError ''Cannot read properties of null (reading 'alternativeSlots')'')
            else if truthyV (member (body r) ''alternativeSlots'')
            then Inr (mkObj [(''success'', Some (JBool False)),
                             (''error'', member (body r) ''error''),
                             (''alternativeSlots'', member (body r) ''alternativeSlots''),
                             (''message'', member (body r) ''message'')])
            else Inr (body r))
      else Inr (body r))"

definition envelope :: "jsval \<Rightarrow> string \<Rightarrow> json \<Rightarrow> response" where
  "envelope functionName k v =
     \<lparr>statusCode = 200, headers = None,
      body = JObj [(''response'',
                    JObj [(''type'', JStr ''function_response''),
                          (''function_response'',
                           mkObj [(''name'', functionName), (k, Some v)])])]\<rparr>"

text \<open>\<^verbatim>\<open>handleFunctionCall\<close> (lines 387 to 496).\<close>

definition handleFunctionCall :: "'s function_table \<Rightarrow> env \<Rightarrow> object \<Rightarrow> 's \<Rightarrow> response \<times> 's" where
  "handleFunctionCall fns env b s =
     (let functionName = functionNameOf b;
          parameters = parametersOf env b
      in case callFunction fns functionName parameters s of
           (Inl e, s') \<Rightarrow> (envelope functionName ''error'' (JStr (err_message e)), s')
         | (Inr result, s') \<Rightarrow>
             (case functionResponseOf functionName result of
                Inl e \<Rightarrow> (envelope functionName ''error'' (JStr (err_message e)), s')
              | Inr functionResponse \<Rightarrow>
                  (envelope functionName ''response'' functionResponse, s')))"

section \<open>The booking pipeline: \<^verbatim>\<open>createBooking\<close> of the earlier \<^verbatim>\<open>index.js\<close>\<close>

text \<open>
  This is \<^verbatim>\<open>createBooking\<close> of \<^verbatim>\<open>unnamed/part_011\<close> (lines 539 to 770): validation,
  date repair, the availability pre-flight, the booking, and the ranking of
  alternatives on a conflict.
\<close>

subsection \<open>The helpers of the scheduling client that the sources do not hold\<close>

text \<open>
  \<^verbatim>\<open>calApi.isTimeSlotAvailable\<close> and \<^verbatim>\<open>calApi.findAlternativeTimeSlots\<close> are called
  by \<^verbatim>\<open>createBooking\<close>, but no file of the sources defines them. They take the
  requested start time; the model passes the instant that the text denotes.
\<close>

text \<open>
  Modelled from the spec: \<^verbatim>\<open>isTimeSlotAvailable\<close> is missing from the sources. The
  specification (4.3, step 3): "Determine whether the exact requested start time
  appears in the returned availability set (exact timestamp match)."
\<close>

definition isTimeSlotAvailable :: "slot list \<Rightarrow> int \<Rightarrow> bool" where
  "isTimeSlotAvailable slots t0 = (t0 \<in> set (map time slots))"

text \<open>
  Modelled from the spec: \<^verbatim>\<open>findAlternativeTimeSlots\<close> is missing from the sources.
  The specification (4.3): "given requested Instant t0 and candidate set S, sort S by
  |slot.time - t0| ascending; for equal distances, the earlier timestamp sorts first;
  truncate to N."
\<close>

definition rank :: "int \<Rightarrow> slot \<Rightarrow> int \<times> int" where
  "rank t0 s = (\<bar>time s - t0\<bar>, time s)"

definition findAlternativeTimeSlots :: "slot list \<Rightarrow> int \<Rightarrow> nat \<Rightarrow> slot list" where
  "findAlternativeTimeSlots slots t0 n = take n (sort_key (rank t0) slots)"

text \<open>
  The order of the ranking, in the words of the specification: nearer to \<open>t0\<close> first,
  and of two slots equally near, the earlier first.
\<close>

definition closer :: "int \<Rightarrow> slot \<Rightarrow> slot \<Rightarrow> bool" where
  "closer t0 a b = (\<bar>time a - t0\<bar> < \<bar>time b - t0\<bar> \<or>
                    (\<bar>time a - t0\<bar> = \<bar>time b - t0\<bar> \<and> time a \<le> time b))"

subsection \<open>Date repair (lines 556 to 629)\<close>

text \<open>
  Lines 566 to 582, the adjusted date, from the current time \<open>n\<close> and the requested
  start \<open>b\<close>, in the zone \<open>z\<close>: in a past year, the same month, day and time in the
  current year, and one year later when that is not after \<open>n\<close>; else tomorrow at the
  same hour and minute.
\<close>

definition adjustDate :: "zone \<Rightarrow> int \<Rightarrow> int \<Rightarrow> Date" where
  "adjustDate z n b =
     (if getFullYear z b < getFullYear z n
      then (case setFullYear z b (getFullYear z n) of
              None \<Rightarrow> None
            | Some a \<Rightarrow> if a \<le> n then setFullYear z a (getFullYear z n + 1) else Some a)
      else (case setDate z n (getDate z n + 1) of
              None \<Rightarrow> None
            | Some a \<Rightarrow> setHours z a (getHours z b) (getMinutes z b) 0 0))"

text \<open>
  What \<^verbatim>\<open>setFullYear\<close> aims at: the local time with the year \<open>y\<close> and the month, day
  and time of day that \<open>t\<close> has in the zone. A local time is on the clock of the zone
  when the time value it is turned into shows it again; a change of the clocks that
  skips an hour leaves the local times of that hour off the clock.
\<close>

definition inYear :: "zone \<Rightarrow> int \<Rightarrow> int \<Rightarrow> int" where
  "inYear z y t =
     (let l = LocalTime z t
      in MakeDate (MakeDay y (MonthFromTime l) (DateFromTime l)) (TimeWithinDay l))"

definition onClock :: "zone \<Rightarrow> int \<Rightarrow> bool" where
  "onClock z l = (LocalTime z (UTC z l) = l)"

text \<open>
  Lines 556 to 629: the parameters after the repair, and the error thrown on the way
  if any (\<^verbatim>\<open>toISOString\<close> of an invalid date). The repair writes the adjusted start
  to \<^verbatim>\<open>params.startTime\<close>; line 610 has made \<^verbatim>\<open>bookingDate\<close> the adjusted date
  before line 618 subtracts it from the end time.
\<close>

definition dateRepair :: "env \<Rightarrow> int \<Rightarrow> object \<Rightarrow> object \<times> error option" where
  "dateRepair env b params =
     (let isPastYear = getFullYear (LocalTZA env) b < getFullYear (LocalTZA env) (now env);
          isPastDate = b \<le> now env
      in if isPastYear \<or> isPastDate
         then (case adjustDate (LocalTZA env) (now env) b of
                 None \<Rightarrow> (params, Some RangeError)
               | Some adjustedDate \<Rightarrow>
                   (let bookingDate = adjustedDate;
                        params1 = AList.update ''startTime'' (JStr (isoString adjustedDate)) params
                    in if truthyV (map_of params1 ''endTime'')
                       then (case newDate env (the (map_of params ''endTime'')) of
                               Inl e \<Rightarrow> (params1, Some e)
                             | Inr None \<Rightarrow> (params1, Some RangeError)
                             | Inr (Some originalEndTime) \<Rightarrow>
                                 (let timeDiff = originalEndTime - bookingDate
                                  in case TimeClip (adjustedDate + timeDiff) of
                                       None \<Rightarrow> (params1, Some RangeError)
                                     | Some adjustedEndTime \<Rightarrow>
                                         (AList.update ''endTime''
                                            (JStr (isoString adjustedEndTime)) params1, None)))
                       else (params1, None)))
         else (params, None))"

subsection \<open>The availability pre-flight and the booking (lines 637 to 769)\<close>

text \<open>The calls made to the scheduling provider, in order.\<close>

datatype call =
    GetAvailability jsval string string jsval
  | CreateBooking json

text \<open>
  Lines 640 to 642 (and 743 to 745): the dates of the query, from the requested date
  \<open>r\<close>: local midnight of the day \<open>before\<close> days earlier and of the day \<open>after\<close> days
  later, each as the part of its ISO text (which is in UTC) in front of the \<^verbatim>\<open>T\<close>.
\<close>

definition isoDay :: "Date \<Rightarrow> error + string" where
  "isoDay d =
     (case toISOString d of
        Inl e \<Rightarrow> Inl e
      | Inr s \<Rightarrow> Inr (takeWhile (\<lambda>c. c \<noteq> CHR ''T'') s))"

definition availabilityWindow :: "zone \<Rightarrow> int \<Rightarrow> int \<Rightarrow> int \<Rightarrow> error + string \<times> string" where
  "availabilityWindow z r before after =
     (case isoDay (newDateYMD z (getFullYear z r) (getMonth z r) (getDate z r - before)) of
        Inl e \<Rightarrow> Inl e
      | Inr startDate \<Rightarrow>
          (case isoDay (newDateYMD z (getFullYear z r) (getMonth z r) (getDate z r + after)) of
             Inl e \<Rightarrow> Inl e
           | Inr endDate \<Rightarrow> Inr (startDate, endDate)))"

definition slotJson :: "slot \<Rightarrow> json" where
  "slotJson s = JObj [(''time'', JStr (isoString (time s)))]"

definition conflictResponse :: "slot list \<Rightarrow> response" where
  "conflictResponse alternativeSlots =
     \<lparr>statusCode = 409, headers = None,
      body = JObj
        [(''success'', JBool False),
         (''error'', JStr ''Requested time slot is not available''),
         (''alternativeSlots'', JArr (map slotJson alternativeSlots)),
         (''message'', JStr (''The requested time slot is not available. '' @
                             ''Please choose from the alternative slots provided.''))]\<rparr>"

text \<open>Lines 669 to 691; \<open>p\<close> holds the parameters as they were on entry.\<close>

definition bookingDetails :: "env \<Rightarrow> jsval \<Rightarrow> object \<Rightarrow> json" where
  "bookingDetails env eventTypeId p =
     mkObj
       ([(''eventTypeId'', eventTypeId),
         (''eventTypeSlug'', Some (JStr ''secret'')),
         (''name'', map_of p ''name''),
         (''email'', map_of p ''email''),
         (''startTime'', map_of p ''startTime''),
         (''endTime'', map_of p ''endTime''),
         (''timeZone'', map_of p ''timeZone''),
         (''notes'', map_of p ''notes''),
         (''metadata'', Some (JObj [(''source'', JStr ''lambda-cal-vapi-integration''),
                                    (''created'', JStr (isoString (later env)))]))]
        @ (case map_of p ''guests'' of
             Some (JArr (g # gs)) \<Rightarrow> [(''guests'', Some (JArr (g # gs)))]
           | _ \<Rightarrow> [])
        @ (if truthyV (map_of p ''location'') then [(''location'', map_of p ''location'')]
           else []))"

text \<open>
  Lines 696 to 734: the response to a booking that the provider accepted. \<open>p\<close> holds
  the parameters on entry and \<open>p'\<close> the parameters after the repair.
\<close>

definition localeText :: "env \<Rightarrow> json \<Rightarrow> error + string" where
  "localeText env v =
     (case newDate env v of Inl e \<Rightarrow> Inl e | Inr d \<Rightarrow> Inr (toLocaleString env d))"

definition responseMessageOf :: "env \<Rightarrow> object \<Rightarrow> object \<Rightarrow> error + string" where
  "responseMessageOf env p p' =
     (if map_of p ''startTime'' \<noteq> map_of p' ''startTime''
      then (case localeText env (the (map_of p ''startTime'')) of
              Inl e \<Rightarrow> Inl e
            | Inr originalDate \<Rightarrow>
                (case localeText env (the (map_of p' ''startTime'')) of
                   Inl e \<Rightarrow> Inl e
                 | Inr adjustedDate \<Rightarrow>
                     Inr (''Booking created successfully. Note: Your requested date ('' @
                          originalDate @
                          '') was in the past, so we've scheduled your appointment for '' @
                          adjustedDate @ '' instead.'')))
      else Inr ''Booking created successfully'')"

definition bookedResponse :: "env \<Rightarrow> object \<Rightarrow> object \<Rightarrow> json \<Rightarrow> error + response" where
  "bookedResponse env p p' booking =
     (case responseMessageOf env p p' of
        Inl e \<Rightarrow> Inl e
      | Inr responseMessage \<Rightarrow>
          Inr \<lparr>statusCode = 200, headers = None,
               body = mkObj
                 [(''success'', Some (JBool True)),
                  (''booking'', Some booking),
                  (''message'', Some (JStr responseMessage)),
                  (''dateAdjusted'',
                   Some (JBool (map_of p ''startTime'' \<noteq> map_of p' ''startTime''))),
                  (''originalDate'', map_of p ''startTime''),
                  (''adjustedDate'', map_of p' ''startTime'')]\<rparr>)"

text \<open>
  Lines 638 to 734, the body of the \<^verbatim>\<open>try\<close>: the window is computed from
  \<^verbatim>\<open>startTime\<close>, the constant taken from the parameters on entry (line 542), whose
  instant is \<open>b\<close>; the same constant is tested against the slots and sent to the
  provider.
\<close>

definition preflight ::
  "env \<Rightarrow> config \<Rightarrow> jsval \<Rightarrow> int \<Rightarrow> object \<Rightarrow> object \<Rightarrow> (error + response) \<times> call list" where
  "preflight env cfg eventTypeId b p p' =
     (case availabilityWindow (LocalTZA env) b 1 1 of
        Inl e \<Rightarrow> (Inl e, [])
      | Inr (startDate, endDate) \<Rightarrow>
          (let timeZone = map_of p ''timeZone'';
               query = GetAvailability eventTypeId startDate endDate timeZone
           in case calApi_getAvailability env cfg eventTypeId startDate endDate timeZone of
                Inl e \<Rightarrow> (Inl e, [query])
              | Inr formattedAvailability \<Rightarrow>
                  if \<not> isTimeSlotAvailable formattedAvailability b
                  then (Inr (conflictResponse
                               (findAlternativeTimeSlots formattedAvailability b 5)), [query])
                  else
                    (let details = bookingDetails env eventTypeId p
                     in case calApi_createBooking env cfg details of
                          Inl e \<Rightarrow> (Inl e, [query, CreateBooking details])
                        | Inr booking \<Rightarrow>
                            (bookedResponse env p p' booking,
                             [query, CreateBooking details]))))"

text \<open>\<^verbatim>\<open>v.includes(t)\<close> of a text or an array; other values have no such function.\<close>

fun isInfix :: "string \<Rightarrow> string \<Rightarrow> bool" where
  "isInfix t [] = (t = [])"
| "isInfix t (x # xs) = (take (length t) (x # xs) = t \<or> isInfix t xs)"

definition includesText :: "json \<Rightarrow> string \<Rightarrow> error + bool" where
  "includesText v t =
     (case v of
        JStr s \<Rightarrow> Inr (isInfix t s)
      | JArr xs \<Rightarrow> Inr (JStr t \<in> set xs)
      | _ \<Rightarrow> Inl (TypeError ''error.details?.error?.message?.includes is not a function''))"

text \<open>Lines 739 and 740: the provider refused the booking because the time is taken.\<close>

definition alreadyBooked :: "error \<Rightarrow> error + bool" where
  "alreadyBooked e =
     (if err_source e = Some ''cal'' \<and> err_statusCode e = Some 400
      then (let d = (if nullish (err_details e) then None else optMember (err_details e) ''error'');
                m = (if nullish d then None else optMember d ''message'')
            in if nullish m then Inr False
               else includesText (the m) ''already has booking at this time or is not available'')
      else Inr False)"

text \<open>Lines 735 to 769, the \<^verbatim>\<open>catch\<close>: alternatives from a wider window, or the error.\<close>

definition onBookingError ::
  "env \<Rightarrow> config \<Rightarrow> jsval \<Rightarrow> int \<Rightarrow> object \<Rightarrow> error \<Rightarrow> call list \<Rightarrow> (error + response) \<times> call list" where
  "onBookingError env cfg eventTypeId b p e cs =
     (case alreadyBooked e of
        Inl e' \<Rightarrow> (Inl e', cs)
      | Inr False \<Rightarrow> (Inl e, cs)
      | Inr True \<Rightarrow>
          (case availabilityWindow (LocalTZA env) b 3 7 of
             Inl e' \<Rightarrow> (Inl e', cs)
           | Inr (startDate, endDate) \<Rightarrow>
               (let timeZone = map_of p ''timeZone'';
                    query = GetAvailability eventTypeId startDate endDate timeZone
                in case calApi_getAvailability env cfg eventTypeId startDate endDate timeZone of
                     Inl availabilityError \<Rightarrow> (Inl e, cs @ [query])
                   | Inr formattedAvailability \<Rightarrow>
                       (Inr (conflictResponse
                               (findAlternativeTimeSlots formattedAvailability b 5)),
                        cs @ [query]))))"

text \<open>
  What a call of \<^verbatim>\<open>createBooking\<close> leaves: the response or the error thrown, the
  parameter object as the call left it, and the calls to the provider.
\<close>

record outcome =
  result :: "error + response"
  params_after :: jsval
  calls :: "call list"

definition createBooking :: "env \<Rightarrow> config \<Rightarrow> jsval \<Rightarrow> outcome" where
  "createBooking env cfg params =
     (if nullish params
      then \<lparr>result = Inl (TypeError
              (''Cannot destructure property 'name' of 'params' as it is '' @ toText params @ ''.'')),
            params_after = params, calls = []\<rparr>
      else if \<not> truthyV (param params ''name'') \<or> \<not> truthyV (param params ''email'') \<or>
              \<not> truthyV (param params ''startTime'') \<or> \<not> truthyV (param params ''timeZone'')
      then \<lparr>result = Inl (ValidationError ''Missing required parameters'' ''params''),
            params_after = params, calls = []\<rparr>
      else
        (let p = spread (the params) in
         case newDate env (the (map_of p ''startTime'')) of
           Inl e \<Rightarrow> \<lparr>result = Inl e, params_after = params, calls = []\<rparr>
         | Inr None \<Rightarrow> \<lparr>result = Inl RangeError, params_after = params, calls = []\<rparr>
         | Inr (Some b) \<Rightarrow>
             (case dateRepair env b p of
                (p', Some e) \<Rightarrow> \<lparr>result = Inl e, params_after = Some (JObj p'), calls = []\<rparr>
              | (p', None) \<Rightarrow>
                  (let eventTypeId = orElse (map_of p' ''eventTypeId'') (Some (cal_eventTypeId cfg))
                   in case preflight env cfg eventTypeId b p p' of
                        (Inl e, cs) \<Rightarrow>
                          (case onBookingError env cfg eventTypeId b p e cs of
                             (r, cs') \<Rightarrow>
                               \<lparr>result = r, params_after = Some (JObj p'), calls = cs'\<rparr>)
                      | (Inr r, cs) \<Rightarrow>
                          \<lparr>result = Inr r, params_after = Some (JObj p'), calls = cs\<rparr>))))"

section \<open>Operations and environments for the examples\<close>

text \<open>An operation that throws: a handler that reaches it shows the error.\<close>

definition failing :: "unit operation" where
  "failing p s = (Inl (plainError ''Error'' ''provider called''), s)"

definition failingOperations :: "unit operations" where
  "failingOperations =
     \<lparr>op_initializeAssistant = failing, op_trialStarted = failing,
      op_handleVapiWebhook = failing, op_checkAvailability = failing,
      op_findAvailability = failing, op_getAvailableSlots = failing,
      op_createBooking = failing, op_rescheduleBooking = failing,
      op_cancelBooking = failing, op_getBookingDetails = failing\<rparr>"

text \<open>
  Time zones for the examples: UTC, the zone of the Lambda runtime; Tokyo, nine hours
  ahead all year; and New York with the daylight saving time of 2023, four hours behind
  from 2023-03-12T07:00:00.000Z to 2023-11-05T06:00:00.000Z and five hours behind
  before and after (the local times from 02:00 to 03:00 of 12 March 2023 are skipped
  and read with the offset before the change).
\<close>

definition utc :: zone where
  "utc t isUTC = 0"

definition tokyo :: zone where
  "tokyo t isUTC = 9 * msPerHour"

definition newYork :: zone where
  "newYork t isUTC =
     (if isUTC
      then (if 1678604400000 \<le> t \<and> t < 1699164000000 then - 4 * msPerHour else - 5 * msPerHour)
      else (if 1678590000000 \<le> t \<and> t < 1699149600000 then - 4 * msPerHour else - 5 * msPerHour))"

text \<open>The shared configuration at the start of the examples.\<close>

definition sharedConfig :: config where
  "sharedConfig = \<lparr>cal_apiKey = JStr ''cal_live_shared'', cal_eventTypeId = JStr ''2077162'',
                    cal_username = JStr ''host''\<rparr>"

text \<open>A provider that answers every query with the key it was asked with.\<close>

definition echoEnv :: env where
  "echoEnv =
     \<lparr>LocalTZA = utc, now = 1750000000000, later = 1750000000500,
      Date_parse = (\<lambda>v. None),
      toLocaleString = (\<lambda>d. ''Invalid Date''),
      JSON_parse = (\<lambda>v. None),
      calApi_getEventTypeAvailabilityV1 = (\<lambda>cfg p. Inr (cal_apiKey cfg)),
      calApi_getAvailabilityV1 = (\<lambda>cfg i. Inr (cal_apiKey cfg)),
      calApi_getSlots = (\<lambda>cfg p. Inr (cal_apiKey cfg)),
      calApi_getAvailability = (\<lambda>cfg e s t z. Inr []),
      calApi_createBooking = (\<lambda>cfg d. Inr JNull)\<rparr>"

text \<open>The operations of \<^verbatim>\<open>src/index.js\<close> modelled above, on the shared configuration.\<close>

definition notRouted :: "config operation" where
  "notRouted p s = (Inl (plainError ''Error'' ''not routed''), s)"

definition slotOperations :: "env \<Rightarrow> config operations" where
  "slotOperations env =
     \<lparr>op_initializeAssistant = notRouted, op_trialStarted = notRouted,
      op_handleVapiWebhook = notRouted, op_checkAvailability = checkAvailability env,
      op_findAvailability = findAvailability env, op_getAvailableSlots = getAvailableSlots env,
      op_createBooking = notRouted, op_rescheduleBooking = notRouted,
      op_cancelBooking = notRouted, op_getBookingDetails = notRouted\<rparr>"

definition checkOnly :: "env \<Rightarrow> config function_table" where
  "checkOnly env =
     \<lparr>fn_checkAvailability = checkAvailability env, fn_createBooking = notRouted,
      fn_rescheduleBooking = notRouted, fn_cancelBooking = notRouted,
      fn_getBookingDetails = notRouted\<rparr>"

text \<open>
  A parser for the examples: the full ISO form \<^verbatim>\<open>YYYY-MM-DDTHH:mm:ss.sssZ\<close> that
  \<^verbatim>\<open>toISOString\<close> writes, and nothing else.
\<close>

definition number :: "string \<Rightarrow> int option" where
  "number s = (if s \<noteq> [] \<and> list_all isDigit s
               then Some (foldl (\<lambda>a c. 10 * a + digitVal c) 0 s) else None)"

definition isoParse :: "string \<Rightarrow> int option" where
  "isoParse s =
     (if length s = 24 \<and> s ! 4 = CHR ''-'' \<and> s ! 7 = CHR ''-'' \<and> s ! 10 = CHR ''T'' \<and>
         s ! 13 = CHR '':'' \<and> s ! 16 = CHR '':'' \<and> s ! 19 = CHR ''.'' \<and> s ! 23 = CHR ''Z''
      then (case (number (take 4 s), number (take 2 (drop 5 s)), number (take 2 (drop 8 s)),
                  number (take 2 (drop 11 s)), number (take 2 (drop 14 s)),
                  number (take 2 (drop 17 s)), number (take 3 (drop 20 s))) of
              (Some y, Some mo, Some d, Some h, Some mi, Some se, Some ms) \<Rightarrow>
                if 1 \<le> mo \<and> mo \<le> 12 \<and> 1 \<le> d \<and>
                   d \<le> monthLength (DaysInYear y = 366) (mo - 1) \<and>
                   h \<le> 23 \<and> mi \<le> 59 \<and> se \<le> 59
                then Some (MakeDate (MakeDay y (mo - 1) d) (MakeTime h mi se ms))
                else None
            | _ \<Rightarrow> None)
      else None)"

text \<open>
  The environment of the booking examples: the zone is UTC, the clock reads
  2025-06-15T15:06:40.000Z, and the provider answers every availability query with the given slots and accepts
  every booking.
\<close>

definition bookingEnv :: "slot list \<Rightarrow> env" where
  "bookingEnv slots =
     \<lparr>LocalTZA = utc, now = 1750000000000, later = 1750000000250,
      Date_parse = (\<lambda>v. case v of JStr s \<Rightarrow> isoParse s | _ \<Rightarrow> None),
      toLocaleString = (\<lambda>d. case d of None \<Rightarrow> ''Invalid Date'' | Some t \<Rightarrow> isoString t),
      JSON_parse = (\<lambda>v. None),
      calApi_getEventTypeAvailabilityV1 = (\<lambda>cfg p. Inr (JArr [])),
      calApi_getAvailabilityV1 = (\<lambda>cfg i. Inr JNull),
      calApi_getSlots = (\<lambda>cfg p. Inr (JObj [])),
      calApi_getAvailability = (\<lambda>cfg e s t z. Inr slots),
      calApi_createBooking = (\<lambda>cfg d. Inr (JObj [(''id'', JNum ''1'')]))\<rparr>"


section \<open>Calendar arithmetic\<close>

lemma DayFromYear_step: "DayFromYear y < DayFromYear (y + 1)"
proof -
  have a: "(y - 1969) div 4 \<le> (y + 1 - 1969) div 4"
    by (rule zdiv_mono1) simp_all
  have "(y + 1 - 1901) div 100 \<le> (y - 1901 + 100) div 100"
    by (rule zdiv_mono1) simp_all
  then have b: "(y + 1 - 1901) div 100 \<le> (y - 1901) div 100 + 1"
    by simp
  have c: "(y - 1601) div 400 \<le> (y + 1 - 1601) div 400"
    by (rule zdiv_mono1) simp_all
  have step: "\<And>p p' q q' r r' :: int. p \<le> p' \<Longrightarrow> q' \<le> q + 1 \<Longrightarrow> r \<le> r' \<Longrightarrow>
      365 * (y - 1970) + p - q + r < 365 * (y + 1 - 1970) + p' - q' + r'"
    by simp
  show ?thesis
    unfolding DayFromYear_def by (rule step [OF a b c])
qed

lemma DayFromYear_mono: "a \<le> b \<Longrightarrow> DayFromYear a \<le> DayFromYear b"
proof (induction b rule: int_ge_induct)
  case base
  show ?case by simp
next
  case (step i)
  have "DayFromYear i < DayFromYear (i + 1)" by (rule DayFromYear_step)
  with step show ?case by simp
qed

lemma DayFromYear_strict: "a < b \<Longrightarrow> DayFromYear a < DayFromYear b"
proof -
  assume "a < b"
  then have "a + 1 \<le> b" by simp
  then have "DayFromYear (a + 1) \<le> DayFromYear b" by (rule DayFromYear_mono)
  moreover have "DayFromYear a < DayFromYear (a + 1)" by (rule DayFromYear_step)
  ultimately show ?thesis by simp
qed






lemma yearDown_le: "DayFromYear (yearDown d y) \<le> d"
proof (induction d y rule: yearDown.induct)
  case (1 d y)
  show ?case
  proof (cases "d < DayFromYear y")
    case True
    with 1 show ?thesis by (simp add: yearDown.simps [of d y])
  next
    case False
    then show ?thesis by (simp add: yearDown.simps [of d y])
  qed
qed

lemma yearUp_bounds:
  "DayFromYear y \<le> d \<Longrightarrow>
     DayFromYear (yearUp d y) \<le> d \<and> d < DayFromYear (yearUp d y + 1)"
proof (induction d y rule: yearUp.induct)
  case (1 d y)
  show ?case
  proof (cases "DayFromYear (y + 1) \<le> d")
    case True
    with 1 show ?thesis by (simp add: yearUp.simps [of d y])
  next
    case False
    with 1 show ?thesis by (simp add: yearUp.simps [of d y])
  qed
qed

lemma YearFromTime_bounds:
  "DayFromYear (YearFromTime t) \<le> Day t \<and> Day t < DayFromYear (YearFromTime t + 1)"
  unfolding YearFromTime_def by (rule yearUp_bounds) (rule yearDown_le)


lemma mult_le_iff_le_div:
  fixes k d t :: int
  assumes "0 < k"
  shows "(k * d \<le> t) = (d \<le> t div k)"
proof
  assume "k * d \<le> t"
  then have "(k * d) div k \<le> t div k" using assms by (rule zdiv_mono1)
  then show "d \<le> t div k" using assms by simp
next
  assume "d \<le> t div k"
  then have "k * d \<le> k * (t div k)" using assms by simp
  also have "\<dots> = t - t mod k" by (simp add: minus_mod_eq_mult_div [symmetric])
  also have "\<dots> \<le> t" using assms by simp
  finally show "k * d \<le> t" .
qed

lemma YearFromTime_largest:
  "TimeFromYear (YearFromTime t) \<le> t \<and> (\<forall>y. TimeFromYear y \<le> t \<longrightarrow> y \<le> YearFromTime t)"
proof -
  note b = YearFromTime_bounds [of t]
  have le: "\<And>d. (msPerDay * d \<le> t) = (d \<le> Day t)"
    unfolding Day_def by (rule mult_le_iff_le_div) (simp add: msPerDay_def)
  have "\<And>y. DayFromYear y \<le> Day t \<Longrightarrow> y \<le> YearFromTime t"
  proof (rule ccontr)
    fix y assume y: "DayFromYear y \<le> Day t" and "\<not> y \<le> YearFromTime t"
    then have "YearFromTime t + 1 \<le> y" by simp
    then have "DayFromYear (YearFromTime t + 1) \<le> DayFromYear y" by (rule DayFromYear_mono)
    with b y show False by simp
  qed
  with b show ?thesis unfolding TimeFromYear_def le by blast
qed




lemma time_decompose: "MakeDate (Day t) (TimeWithinDay t) = t"
  by (simp add: MakeDate_def Day_def TimeWithinDay_def)

lemma mod_mult_div:
  fixes a b c :: int
  assumes "0 < b" and "0 \<le> c"
  shows "(a mod (b * c)) div b = (a div b) mod c"
proof -
  have "a mod (b * c) = b * (a div b mod c) + a mod b"
    using assms(2) by (rule zmod_zmult2_eq)
  moreover have "0 \<le> a mod b" "a mod b < b" using assms(1) by simp_all
  ultimately show ?thesis by (rule int_div_pos_eq)
qed



lemma SecFromTime_within: "SecFromTime t = (TimeWithinDay t div msPerSecond) mod 60"
proof -
  have "TimeWithinDay t div msPerSecond = (t div msPerSecond) mod 86400"
    using mod_mult_div [of 1000 86400 t]
    by (simp add: TimeWithinDay_def msPerSecond_def msPerDay_def)
  moreover have "(t div msPerSecond) mod 86400 mod 60 = (t div msPerSecond) mod 60"
    by (rule mod_mod_cancel) simp
  ultimately show ?thesis by (simp add: SecFromTime_def)
qed

lemma msFromTime_within: "msFromTime t = TimeWithinDay t mod msPerSecond"
proof -
  have "t mod 86400000 mod 1000 = t mod 1000"
    by (rule mod_mod_cancel) simp
  then show ?thesis by (simp add: msFromTime_def TimeWithinDay_def msPerSecond_def msPerDay_def)
qed



















section \<open>The dispatcher\<close>

lemma createBooking_path_last:
  "path ev = Some ''/createBooking'' \<Longrightarrow> lastPathPart ev = ''createBooking''"
  by (simp add: lastPathPart_def pathParts_def)

text \<open>
  Claim C10. An \<^verbatim>\<open>OPTIONS\<close> request is answered at once with status 200, the body
  \<^verbatim>\<open>{success: true}\<close> and the CORS headers. Neither the body, the path, the query
  string nor any operation has a part in the answer: the handler returns the same
  response and leaves the state as it was whatever they are.
\<close>

theorem options_preflight:
  assumes "httpMethod ev = Some ''OPTIONS''"
  shows "handler ops ev s =
           (\<lparr>statusCode = 200,
             headers = Some [(''Content-Type'', ''application/json''),
                             (''Access-Control-Allow-Origin'', ''*''),
                             (''Access-Control-Allow-Methods'', ''GET, POST, OPTIONS''),
                             (''Access-Control-Allow-Headers'', ''Content-Type'')],
             body = JObj [(''success'', JBool True)]\<rparr>, s)
         \<and> handler ops ev s =
             handler ops' (ev\<lparr>path := pth, queryStringParameters := q, rawBody := b\<rparr>) s"
  using assms by (simp add: handler_def optionsResponse_def)

theorem options_preflight_witness:
  "handler failingOperations
     \<lparr>httpMethod = Some ''OPTIONS'', path = Some ''/createBooking'',
      queryStringParameters = Some [(''action'', ''createBooking'')], rawBody = BadJSON\<rparr> ()
   = (\<lparr>statusCode = 200,
       headers = Some [(''Content-Type'', ''application/json''),
                       (''Access-Control-Allow-Origin'', ''*''),
                       (''Access-Control-Allow-Methods'', ''GET, POST, OPTIONS''),
                       (''Access-Control-Allow-Headers'', ''Content-Type'')],
       body = JObj [(''success'', JBool True)]\<rparr>, ())"
  using options_preflight
    [where ev = "\<lparr>httpMethod = Some ''OPTIONS'', path = Some ''/createBooking'',
                   queryStringParameters = Some [(''action'', ''createBooking'')],
                   rawBody = BadJSON\<rparr>"
       and s = "()" and ops = failingOperations]
  by simp

text \<open>
  Claim C7, as amended. When the last path segment is not \<^verbatim>\<open>createBooking\<close> and the
  query string has no non-empty \<^verbatim>\<open>action\<close>: a last segment in the handler's list
  \<open>knownActions\<close> is the action, and any other non-empty last segment gives
  \<^verbatim>\<open>handleVapiWebhook\<close>, whatever the body holds. The list has six of the ten valid
  actions: \<^verbatim>\<open>findAvailability\<close>, \<^verbatim>\<open>handleVapiWebhook\<close>, \<^verbatim>\<open>initializeAssistant\<close> and
  \<^verbatim>\<open>trialStarted\<close> are not in it.
\<close>

theorem action_from_path:
  assumes "lastPathPart ev \<noteq> ''createBooking''"
    and "map_of (queryParams ev) ''action'' = None \<or> map_of (queryParams ev) ''action'' = Some []"
  shows "(lastPathPart ev \<in> set knownActions \<longrightarrow>
            resolveAction ev bdy = Inr (JStr (lastPathPart ev)))
       \<and> (lastPathPart ev \<noteq> [] \<and> lastPathPart ev \<notin> set knownActions \<longrightarrow>
            resolveAction ev bdy = Inr (JStr ''handleVapiWebhook''))
       \<and> set knownActions = set VALID_ACTIONS -
            {''findAvailability'', ''handleVapiWebhook'', ''initializeAssistant'', ''trialStarted''}"
proof -
  have p: "path ev \<noteq> Some ''/createBooking''"
    using assms(1) createBooking_path_last by blast
  have q: "\<not> truthyV (map_option JStr (map_of (queryParams ev) ''action''))"
    using assms(2) by (auto simp: truthyV_def)
  have ne: "lastPathPart ev \<in> set knownActions \<Longrightarrow> lastPathPart ev \<noteq> []"
    by (auto simp: knownActions_def)
  have sets: "set knownActions = set VALID_ACTIONS -
      {''findAvailability'', ''handleVapiWebhook'', ''initializeAssistant'', ''trialStarted''}"
    by (auto simp: knownActions_def VALID_ACTIONS_def)
  show ?thesis
    using assms(1) p q ne sets by (simp add: resolveAction_def)
qed

theorem action_from_path_witness:
  "lastPathPart \<lparr>httpMethod = Some ''POST'', path = Some ''/prod/checkAvailability'',
                 queryStringParameters = None, rawBody = NoBody\<rparr> = ''checkAvailability''
   \<and> resolveAction \<lparr>httpMethod = Some ''POST'', path = Some ''/prod/checkAvailability'',
                 queryStringParameters = None, rawBody = NoBody\<rparr>
        (JObj [(''action'', JStr ''cancelBooking'')]) = Inr (JStr ''checkAvailability'')
   \<and> lastPathPart \<lparr>httpMethod = Some ''POST'', path = Some ''/hooks/vapi'',
                 queryStringParameters = Some [(''action'', [])], rawBody = NoBody\<rparr> = ''vapi''
   \<and> resolveAction \<lparr>httpMethod = Some ''POST'', path = Some ''/hooks/vapi'',
                 queryStringParameters = Some [(''action'', [])], rawBody = NoBody\<rparr>
        (JObj [(''action'', JStr ''cancelBooking'')]) = Inr (JStr ''handleVapiWebhook'')"
  using action_from_path
      [of "\<lparr>httpMethod = Some ''POST'', path = Some ''/prod/checkAvailability'',
            queryStringParameters = None, rawBody = NoBody\<rparr>"
          "JObj [(''action'', JStr ''cancelBooking'')]"]
    action_from_path
      [of "\<lparr>httpMethod = Some ''POST'', path = Some ''/hooks/vapi'',
            queryStringParameters = Some [(''action'', [])], rawBody = NoBody\<rparr>"
          "JObj [(''action'', JStr ''cancelBooking'')]"]
  by (simp add: lastPathPart_def pathParts_def queryParams_def knownActions_def
      VALID_ACTIONS_def)

text \<open>
  The claim as it stands, with the valid actions of lines 11 to 22 as the known
  actions, fails on the path \<^verbatim>\<open>/findAvailability\<close>: the segment is a valid action, no
  \<^verbatim>\<open>action\<close> is in the query string, and the action is \<^verbatim>\<open>handleVapiWebhook\<close>.
\<close>

theorem path_of_valid_action_counterexample:
  "''findAvailability'' \<in> set VALID_ACTIONS
   \<and> lastPathPart \<lparr>httpMethod = Some ''GET'', path = Some ''/findAvailability'',
                   queryStringParameters = Some [(''id'', ''42'')], rawBody = NoBody\<rparr>
       = ''findAvailability''
   \<and> map_of (queryParams \<lparr>httpMethod = Some ''GET'', path = Some ''/findAvailability'',
                   queryStringParameters = Some [(''id'', ''42'')], rawBody = NoBody\<rparr>)
        ''action'' = None
   \<and> resolveAction \<lparr>httpMethod = Some ''GET'', path = Some ''/findAvailability'',
                   queryStringParameters = Some [(''id'', ''42'')], rawBody = NoBody\<rparr> (JObj [])
       = Inr (JStr ''handleVapiWebhook'')"
  by (simp add: VALID_ACTIONS_def lastPathPart_def pathParts_def queryParams_def
      resolveAction_def knownActions_def truthyV_def)


section \<open>The parameters of a request\<close>
















section \<open>The key of a request and the shared configuration\<close>

lemma key_written_by_getAvailableSlots:
  assumes "\<not> nullish params" and "truthyV (param params ''apiKey'')"
   and e: "truthyV (param params ''endTime'')"
  shows "cal_apiKey (snd (getAvailableSlots env params cfg)) = the (param params ''apiKey'')"
proof -
  obtain k where k: "param params ''apiKey'' = Some k" "truthy k"
    using assms(2) by (auto simp: truthyV_def split: option.splits)
  have e0: "orElse (orElse (param params ''endTime'') (param params ''endDate''))
              (param params ''end'') = param params ''endTime''"
    using e by (simp add: orElse_def)
  have k0: "orElse (orElse (param params ''apiKey'') (param params ''api_key''))
              (Some (cal_apiKey cfg)) = Some k"
    using assms(2) k(1) by (simp add: orElse_def)
  have "cal_apiKey (snd (getAvailableSlots env params cfg)) = k"
    using assms(1) e k(2)
    by (simp add: getAvailableSlots_def e0 k0 Let_def split: sum.splits)
  then show ?thesis
    by (simp add: k(1))
qed

lemma key_written_by_findAvailability:
  assumes "\<not> nullish params" and "truthyV (param params ''apiKey'')"
   and i: "truthyV (param params ''id'') \<and> printable (the (param params ''id''))
             \<and> parseInt10 (the (param params ''id'')) \<noteq> None"
  shows "cal_apiKey (snd (findAvailability env params cfg)) = the (param params ''apiKey'')"
  using assms
  by (auto simp: findAvailability_def Let_def split: sum.splits option.splits)

text \<open>
  Claim C9 does not hold of the code. A request for slots, or for an availability, that
  brings its own key leaves that key in the shared configuration, whatever the
  provider answers; and the next request, which brings no key, is served with it.
\<close>

theorem request_key_written_to_shared_config:
  assumes "\<not> nullish params" and "truthyV (param params ''apiKey'')"
  shows "(truthyV (param params ''endTime'') \<longrightarrow>
            cal_apiKey (snd (getAvailableSlots env params cfg)) = the (param params ''apiKey''))
       \<and> (truthyV (param params ''id'') \<and> printable (the (param params ''id''))
            \<and> parseInt10 (the (param params ''id'')) \<noteq> None \<longrightarrow>
            cal_apiKey (snd (findAvailability env params cfg)) = the (param params ''apiKey''))"
  using key_written_by_getAvailableSlots [OF assms] key_written_by_findAvailability [OF assms]
  by blast

theorem request_key_written_to_shared_config_witness:
  "cal_apiKey sharedConfig = JStr ''cal_live_shared''
   \<and> cal_apiKey (snd (getAvailableSlots echoEnv
          (Some (JObj [(''startTime'', JStr ''2025-07-01''), (''endTime'', JStr ''2025-07-08''),
                       (''apiKey'', JStr ''cal_live_request'')]))
          sharedConfig)) = JStr ''cal_live_request''
   \<and> cal_apiKey (snd (findAvailability echoEnv
          (Some (JObj [(''id'', JStr ''42''), (''apiKey'', JStr ''cal_live_request'')]))
          sharedConfig)) = JStr ''cal_live_request''"
proof -
  let ?a = "Some (JObj [(''startTime'', JStr ''2025-07-01''), (''endTime'', JStr ''2025-07-08''),
                        (''apiKey'', JStr ''cal_live_request'')])"
  let ?b = "Some (JObj [(''id'', JStr ''42''), (''apiKey'', JStr ''cal_live_request'')])"
  have a: "\<not> nullish ?a" "truthyV (param ?a ''apiKey'')" "truthyV (param ?a ''endTime'')"
    "the (param ?a ''apiKey'') = JStr ''cal_live_request''"
    by code_simp+
  have b: "\<not> nullish ?b" "truthyV (param ?b ''apiKey'')"
    "truthyV (param ?b ''id'') \<and> printable (the (param ?b ''id''))
       \<and> parseInt10 (the (param ?b ''id'')) \<noteq> None"
    "the (param ?b ''apiKey'') = JStr ''cal_live_request''"
    by code_simp+
  have c: "cal_apiKey sharedConfig = JStr ''cal_live_shared''"
    by (simp add: sharedConfig_def)
  from request_key_written_to_shared_config [OF a(1,2), of echoEnv sharedConfig]
    request_key_written_to_shared_config [OF b(1,2), of echoEnv sharedConfig]
  show ?thesis using a(3,4) b(3,4) c by simp
qed

theorem key_of_one_request_serves_the_next:
  "member (body (fst (handler (slotOperations echoEnv)
       \<lparr>httpMethod = Some ''GET'', path = Some ''/'',
        queryStringParameters = Some [(''action'', ''getAvailableSlots''),
          (''startTime'', ''2025-07-01''), (''endTime'', ''2025-07-08'')],
        rawBody = NoBody\<rparr>
       (snd (handler (slotOperations echoEnv)
          \<lparr>httpMethod = Some ''GET'', path = Some ''/'',
           queryStringParameters = Some [(''action'', ''getAvailableSlots''),
             (''startTime'', ''2025-07-01''), (''endTime'', ''2025-07-08''),
             (''apiKey'', ''cal_live_request'')],
           rawBody = NoBody\<rparr>
          sharedConfig))))) ''slots''
   = Some (JStr ''cal_live_request'')"
  by code_simp

section \<open>The envelope of a function call\<close>

lemma mkObj_pair:
  "mkObj [(''name'', n), (k, Some v)] =
     JObj ((case n of None \<Rightarrow> [] | Some j \<Rightarrow> [(''name'', j)]) @ [(k, v)])"
  by (cases n) (simp_all add: mkObj_def List.map_filter_def)

text \<open>
  Claim C8, as amended. Every function call is answered with status 200 and the body
  \<^verbatim>\<open>{response: {type: 'function_response', function_response: {name, ...}}}\<close>, where
  \<^verbatim>\<open>name\<close> is the name of the call. When the operation throws (an unknown name
  included), \<^verbatim>\<open>function_response\<close> holds the message under \<^verbatim>\<open>error\<close> and has no
  \<^verbatim>\<open>response\<close>. When the operation returns, also with a status that reports a
  failure, \<^verbatim>\<open>function_response\<close> holds the body of what it returned under
  \<^verbatim>\<open>response\<close> and has no \<^verbatim>\<open>error\<close> (a \<^verbatim>\<open>createBooking\<close> result of status 409 is
  cut down to its conflict fields first).
\<close>

theorem function_call_envelope:
  "\<exists>fr. handleFunctionCall fns env b s =
          (\<lparr>statusCode = 200, headers = None,
            body = JObj [(''response'',
                     JObj [(''type'', JStr ''function_response''),
                           (''function_response'', JObj fr)])]\<rparr>,
           snd (callFunction fns (functionNameOf b) (parametersOf env b) s))
      \<and> map_of fr ''name'' = functionNameOf b
      \<and> (\<forall>e. fst (callFunction fns (functionNameOf b) (parametersOf env b) s) = Inl e \<longrightarrow>
            map_of fr ''error'' = Some (JStr (err_message e)) \<and> map_of fr ''response'' = None)
      \<and> (\<forall>r. fst (callFunction fns (functionNameOf b) (parametersOf env b) s) = Inr r \<longrightarrow>
            (case functionResponseOf (functionNameOf b) r of
               Inl e \<Rightarrow> map_of fr ''error'' = Some (JStr (err_message e))
                        \<and> map_of fr ''response'' = None
             | Inr v \<Rightarrow> map_of fr ''response'' = Some v \<and> map_of fr ''error'' = None))
      \<and> (\<forall>r. fst (callFunction fns (functionNameOf b) (parametersOf env b) s) = Inr r \<longrightarrow>
            \<not> (functionNameOf b = Some (JStr ''createBooking'') \<and> statusCode r = 409) \<longrightarrow>
            map_of fr ''response'' = Some (body r) \<and> map_of fr ''error'' = None)"
proof (cases "callFunction fns (functionNameOf b) (parametersOf env b) s")
  case (Pair res s')
  show ?thesis
  proof (cases res)
    case (Inl e)
    show ?thesis
      apply (rule exI [of _ "(case functionNameOf b of None \<Rightarrow> [] | Some j \<Rightarrow> [(''name'', j)])
                              @ [(''error'', JStr (err_message e))]"])
      using Pair Inl
      by (auto simp: handleFunctionCall_def envelope_def mkObj_pair Let_def split: option.splits)
  next
    case (Inr r)
    show ?thesis
    proof (cases "functionResponseOf (functionNameOf b) r")
      case (Inl e)
      show ?thesis
        apply (rule exI [of _ "(case functionNameOf b of None \<Rightarrow> [] | Some j \<Rightarrow> [(''name'', j)])
                                @ [(''error'', JStr (err_message e))]"])
        using Pair Inr Inl
        by (auto simp: handleFunctionCall_def envelope_def mkObj_pair Let_def functionResponseOf_def
            split: option.splits if_splits)
    next
      case (Inr v)
      show ?thesis
        apply (rule exI [of _ "(case functionNameOf b of None \<Rightarrow> [] | Some j \<Rightarrow> [(''name'', j)])
                                @ [(''response'', v)]"])
        using Pair \<open>res = Inr r\<close> Inr
        by (auto simp: handleFunctionCall_def envelope_def mkObj_pair Let_def functionResponseOf_def
            split: option.splits if_splits)
    qed
  qed
qed

theorem function_call_envelope_witness:
  "\<exists>fr. handleFunctionCall (checkOnly echoEnv) echoEnv
          [(''function'', JStr ''bookTable''), (''parameters'', JObj []),
           (''callId'', JStr ''call-123'')] sharedConfig =
          (\<lparr>statusCode = 200, headers = None,
            body = JObj [(''response'',
                     JObj [(''type'', JStr ''function_response''),
                           (''function_response'', JObj fr)])]\<rparr>, sharedConfig)
      \<and> map_of fr ''name'' = Some (JStr ''bookTable'')
      \<and> map_of fr ''error'' = Some (JStr ''Unknown function: bookTable'')
      \<and> map_of fr ''response'' = None"
proof -
  let ?b = "[(''function'', JStr ''bookTable''), (''parameters'', JObj []),
             (''callId'', JStr ''call-123'')]"
  have n: "functionNameOf ?b = Some (JStr ''bookTable'')"
    by code_simp
  have c: "callFunction (checkOnly echoEnv) (Some (JStr ''bookTable'')) (parametersOf echoEnv ?b) sharedConfig
      = (Inl (ValidationError ''Unknown function: bookTable'' ''function''), sharedConfig)"
    by code_simp
  have m: "err_message (ValidationError ''Unknown function: bookTable'' ''function'')
      = ''Unknown function: bookTable''"
    by (simp add: ValidationError_def plainError_def)
  from function_call_envelope [of "checkOnly echoEnv" echoEnv ?b sharedConfig]
  obtain fr where
    "handleFunctionCall (checkOnly echoEnv) echoEnv ?b sharedConfig =
       (\<lparr>statusCode = 200, headers = None,
         body = JObj [(''response'',
                  JObj [(''type'', JStr ''function_response''),
                        (''function_response'', JObj fr)])]\<rparr>, sharedConfig)"
    "map_of fr ''name'' = Some (JStr ''bookTable'')"
    "map_of fr ''error'' = Some (JStr ''Unknown function: bookTable'')"
    "map_of fr ''response'' = None"
    unfolding n c using m by auto
  then show ?thesis by blast
qed

text \<open>
  The claim as it stands fails where the operation reports its failure in what it
  returns: \<^verbatim>\<open>checkAvailability\<close> without a start date returns the status 400 of a
  validation error, and the envelope holds that under \<^verbatim>\<open>response\<close>; there is no
  \<^verbatim>\<open>function_response.error\<close>.
\<close>

theorem returned_failure_counterexample:
  "statusCode (handleError (ValidationError ''Start date is required'' ''startDate'')) = 400
   \<and> checkAvailability echoEnv (Some (JObj [(''endDate'', JStr ''2025-07-08'')])) sharedConfig
       = (Inr (handleError (ValidationError ''Start date is required'' ''startDate'')), sharedConfig)
   \<and> handleFunctionCall (checkOnly echoEnv) echoEnv
        [(''function'', JStr ''checkAvailability''),
         (''parameters'', JObj [(''endDate'', JStr ''2025-07-08'')]),
         (''callId'', JStr ''call-123'')] sharedConfig
       = (\<lparr>statusCode = 200, headers = None,
           body = JObj [(''response'',
                    JObj [(''type'', JStr ''function_response''),
                          (''function_response'',
                           JObj [(''name'', JStr ''checkAvailability''),
                                 (''response'',
                                  JObj [(''success'', JBool False),
                                        (''error'', JStr ''Start date is required''),
                                        (''type'', JStr ''ValidationError''),
                                        (''field'', JStr ''startDate'')])])])]\<rparr>,
          sharedConfig)"
  by code_simp



section \<open>Date repair\<close>


lemma newDate_clipped: "newDate env v = Inr (Some t) \<Longrightarrow> TimeClip t = Some t"
  by (auto simp: newDate_def TimeClip_def split: option.splits if_splits)






text \<open>
  A 29 February keeps its month and day when the current year is a leap year whose
  29 February is still to come: 2020-02-29T10:00:00.000Z requested at
  2024-01-15T12:00:00.000Z is repaired to 2024-02-29T10:00:00.000Z.
\<close>

lemma feb_29_in_leap_year:
  "isoString 1582970400000 = ''2020-02-29T10:00:00.000Z''
   \<and> isoString 1705320000000 = ''2024-01-15T12:00:00.000Z''
   \<and> adjustDate utc 1705320000000 1582970400000 = Some 1709200800000
   \<and> isoString 1709200800000 = ''2024-02-29T10:00:00.000Z''"
  by code_simp

text \<open>
  A local time that the clocks skip is not kept. In New York, 02:30 of 12 March 2022
  (07:30 UTC) requested on 15 January 2023 aims at 02:30 of 12 March 2023, the day the
  clocks go from 02:00 to 03:00: the adjusted date is 2023-03-12T07:30:00.000Z, which is
  03:30 there.
\<close>

lemma skipped_hour:
  "isoString 1647070200000 = ''2022-03-12T07:30:00.000Z''
   \<and> getHours newYork 1647070200000 = 2 \<and> getMinutes newYork 1647070200000 = 30
   \<and> isoString 1673784000000 = ''2023-01-15T12:00:00.000Z''
   \<and> \<not> onClock newYork (inYear newYork (getFullYear newYork 1673784000000) 1647070200000)
   \<and> adjustDate newYork 1673784000000 1647070200000 = Some 1678606200000
   \<and> isoString 1678606200000 = ''2023-03-12T07:30:00.000Z''
   \<and> getHours newYork 1678606200000 = 3 \<and> getMinutes newYork 1678606200000 = 30"
  by code_simp

text \<open>
  Claim C2 does not hold of the code. Whenever the repair runs on a request with an end
  time, the end time written back is the original one: line 610 has replaced
  \<^verbatim>\<open>bookingDate\<close> by the adjusted date, so that the difference of line 618 added to the
  adjusted date (line 619) gives the original end time back. The start is moved and
  the end is not.
\<close>

theorem end_time_not_shifted:
  assumes "getFullYear (LocalTZA env) b < getFullYear (LocalTZA env) (now env) \<or> b \<le> now env"
    and "adjustDate (LocalTZA env) (now env) b = Some a"
    and "truthyV (map_of p ''endTime'')"
    and "newDate env (the (map_of p ''endTime'')) = Inr (Some originalEndTime)"
  shows "dateRepair env b p =
           (AList.update ''endTime'' (JStr (isoString originalEndTime))
              (AList.update ''startTime'' (JStr (isoString a)) p), None)"
proof -
  have "map_of (AList.update ''startTime'' (JStr (isoString a)) p) ''endTime'' = map_of p ''endTime''"
    by (simp add: update_conv')
  moreover have "TimeClip (a + (originalEndTime - a)) = Some originalEndTime"
    using newDate_clipped [OF assms(4)] by simp
  ultimately show ?thesis
    using assms by (simp add: dateRepair_def Let_def)
qed

theorem end_time_not_shifted_witness:
  "dateRepair (bookingEnv []) 1672567200000
     [(''name'', JStr ''Ada''), (''email'', JStr ''ada@example.org''),
      (''startTime'', JStr ''2023-01-01T10:00:00.000Z''),
      (''endTime'', JStr ''2023-01-01T10:30:00.000Z''), (''timeZone'', JStr ''UTC'')]
   = ([(''name'', JStr ''Ada''), (''email'', JStr ''ada@example.org''),
       (''startTime'', JStr ''2026-01-01T10:00:00.000Z''),
       (''endTime'', JStr ''2023-01-01T10:30:00.000Z''), (''timeZone'', JStr ''UTC'')], None)"
proof -
  let ?p = "[(''name'', JStr ''Ada''), (''email'', JStr ''ada@example.org''),
      (''startTime'', JStr ''2023-01-01T10:00:00.000Z''),
      (''endTime'', JStr ''2023-01-01T10:30:00.000Z''), (''timeZone'', JStr ''UTC'')]"
  have 1: "getFullYear (LocalTZA (bookingEnv [])) 1672567200000
        < getFullYear (LocalTZA (bookingEnv [])) (now (bookingEnv []))
      \<or> 1672567200000 \<le> now (bookingEnv [])"
    by code_simp
  have 2: "adjustDate (LocalTZA (bookingEnv [])) (now (bookingEnv [])) 1672567200000
      = Some 1767261600000"
    by code_simp
  have 3: "truthyV (map_of ?p ''endTime'')"
    by code_simp
  have 4: "newDate (bookingEnv []) (the (map_of ?p ''endTime'')) = Inr (Some 1672569000000)"
    by code_simp
  have 5: "AList.update ''endTime'' (JStr (isoString 1672569000000))
              (AList.update ''startTime'' (JStr (isoString 1767261600000)) ?p)
      = [(''name'', JStr ''Ada''), (''email'', JStr ''ada@example.org''),
       (''startTime'', JStr ''2026-01-01T10:00:00.000Z''),
       (''endTime'', JStr ''2023-01-01T10:30:00.000Z''), (''timeZone'', JStr ''UTC'')]"
    by code_simp
  show ?thesis
    using end_time_not_shifted [OF 1 2 3 4] unfolding 5 .
qed


section \<open>The ranking of alternatives\<close>

lemma rank_inj: "rank t0 a = rank t0 b \<Longrightarrow> a = b"
  by (cases a, cases b) (simp add: rank_def)

lemma filter_same_key:
  "filter (\<lambda>x. rank t0 k = rank t0 x) zs = replicate (count (mset zs) k) k"
proof (induction zs)
  case Nil
  show ?case by simp
next
  case (Cons z zs)
  then show ?case using rank_inj [of t0 k z] by auto
qed

lemma sort_key_rank_mset:
  assumes "mset xs = mset ys"
  shows "sort_key (rank t0) xs = sort_key (rank t0) ys"
proof (rule properties_for_sort_key)
  show "mset (sort_key (rank t0) ys) = mset xs" using assms by simp
  show "sorted (map (rank t0) (sort_key (rank t0) ys))" by (rule sorted_sort_key)
  fix k
  show "filter (\<lambda>x. rank t0 k = rank t0 x) (sort_key (rank t0) ys)
      = filter (\<lambda>x. rank t0 k = rank t0 x) xs"
    using assms by (simp add: filter_same_key)
qed

lemma rank_le: "(rank t0 a \<le> rank t0 b) = closer t0 a b"
  by (auto simp: rank_def closer_def less_eq_prod_def)

lemma sorted_by_rank: "sorted_wrt (closer t0) (sort_key (rank t0) slots)"
proof -
  have "sorted (map (rank t0) (sort_key (rank t0) slots))" by (rule sorted_sort_key)
  then show ?thesis by (simp add: sorted_map rank_le)
qed


text \<open>
  Claim C3. \<^verbatim>\<open>findAlternativeTimeSlots\<close> returns at most \<open>n\<close> slots (\<open>n\<close> of them when there
  are that many), nearest to \<open>t0\<close> first and the earlier first of two equally near; they
  are slots of the list, and none of the slots left out ranks before one returned. The
  result depends on the slots only, not on the order the list has them in.
\<close>

theorem alternatives_ranked:
  "length (findAlternativeTimeSlots slots t0 n) \<le> n
   \<and> length (findAlternativeTimeSlots slots t0 n) = min n (length slots)
   \<and> sorted_wrt (closer t0) (findAlternativeTimeSlots slots t0 n)
   \<and> (\<exists>rest. mset (findAlternativeTimeSlots slots t0 n @ rest) = mset slots
         \<and> (\<forall>a \<in> set (findAlternativeTimeSlots slots t0 n). \<forall>r \<in> set rest. closer t0 a r))
   \<and> (\<forall>slots'. mset slots' = mset slots \<longrightarrow>
         findAlternativeTimeSlots slots' t0 n = findAlternativeTimeSlots slots t0 n)"
proof (intro conjI)
  let ?s = "sort_key (rank t0) slots"
  show "length (findAlternativeTimeSlots slots t0 n) \<le> n"
    by (simp add: findAlternativeTimeSlots_def)
  show "length (findAlternativeTimeSlots slots t0 n) = min n (length slots)"
    by (simp add: findAlternativeTimeSlots_def min.commute)
  show "sorted_wrt (closer t0) (findAlternativeTimeSlots slots t0 n)"
    unfolding findAlternativeTimeSlots_def using sorted_by_rank by (rule sorted_wrt_take)
  show "\<exists>rest. mset (findAlternativeTimeSlots slots t0 n @ rest) = mset slots
         \<and> (\<forall>a \<in> set (findAlternativeTimeSlots slots t0 n). \<forall>r \<in> set rest. closer t0 a r)"
  proof (intro exI conjI)
    have split: "take n ?s @ drop n ?s = ?s" by (rule append_take_drop_id)
    show "mset (findAlternativeTimeSlots slots t0 n @ drop n ?s) = mset slots"
      unfolding findAlternativeTimeSlots_def split by (rule mset_sort)
    have "sorted_wrt (closer t0) (take n ?s @ drop n ?s)"
      unfolding split by (rule sorted_by_rank)
    then show "\<forall>a \<in> set (findAlternativeTimeSlots slots t0 n). \<forall>r \<in> set (drop n ?s). closer t0 a r"
      unfolding findAlternativeTimeSlots_def sorted_wrt_append by (elim conjE)
  qed
  show "\<forall>slots'. mset slots' = mset slots \<longrightarrow>
         findAlternativeTimeSlots slots' t0 n = findAlternativeTimeSlots slots t0 n"
    unfolding findAlternativeTimeSlots_def
    by (intro allI impI arg_cong [where f = "take n"] sort_key_rank_mset)
qed

text \<open>
  The slots 09:00, 10:00 and 11:30 of 2025-07-01 (UTC), for a request of 10:15 and two
  alternatives: 10:00, then 09:00, which is as far from 10:15 as 11:30 is, and earlier.
\<close>

theorem alternatives_ranked_witness:
  "findAlternativeTimeSlots
     [\<lparr>time = 1751360400000\<rparr>, \<lparr>time = 1751364000000\<rparr>, \<lparr>time = 1751369400000\<rparr>]
     1751364900000 2
   = [\<lparr>time = 1751364000000\<rparr>, \<lparr>time = 1751360400000\<rparr>]
   \<and> findAlternativeTimeSlots
     [\<lparr>time = 1751369400000\<rparr>, \<lparr>time = 1751364000000\<rparr>, \<lparr>time = 1751360400000\<rparr>]
     1751364900000 2
   = [\<lparr>time = 1751364000000\<rparr>, \<lparr>time = 1751360400000\<rparr>]"
proof -
  let ?xs = "[\<lparr>time = 1751360400000\<rparr>, \<lparr>time = 1751364000000\<rparr>, \<lparr>time = 1751369400000\<rparr>]"
  let ?ys = "[\<lparr>time = 1751369400000\<rparr>, \<lparr>time = 1751364000000\<rparr>, \<lparr>time = 1751360400000\<rparr>]"
  have v: "findAlternativeTimeSlots ?xs 1751364900000 2
      = [\<lparr>time = 1751364000000\<rparr>, \<lparr>time = 1751360400000\<rparr>]"
    by (simp add: findAlternativeTimeSlots_def rank_def less_eq_prod_def)
  have p: "mset ?ys = mset ?xs" by simp
  note th = alternatives_ranked [of ?xs 1751364900000 2]
  have "findAlternativeTimeSlots ?ys 1751364900000 2 = findAlternativeTimeSlots ?xs 1751364900000 2"
    by (rule th [THEN conjunct2, THEN conjunct2, THEN conjunct2, THEN conjunct2, THEN spec,
                 THEN mp, OF p])
  then show ?thesis unfolding v by simp
qed

section \<open>The availability pre-flight\<close>

lemma preflight_first_call:
  assumes "availabilityWindow (LocalTZA env) b 1 1 = Inr (startDate, endDate)"
  shows "\<exists>rest. snd (preflight env cfg eventTypeId b p p') =
           GetAvailability eventTypeId startDate endDate (map_of p ''timeZone'') # rest"
  using assms by (simp add: preflight_def Let_def split: sum.splits)

lemma onBookingError_calls:
  "\<exists>more. snd (onBookingError env cfg eventTypeId b p e cs) = cs @ more"
  by (simp add: onBookingError_def Let_def split: sum.splits bool.splits prod.splits)

text \<open>
  Claim C1 does not hold of the code. Whenever a valid request passes the repair, which
  leaves the parameters \<open>p'\<close>, the first query to the provider asks for the days around
  \<open>b\<close>, the start as it came in (line 542 has bound \<^verbatim>\<open>startTime\<close> before the repair,
  and line 640 reads that binding), whatever the repair has written to
  \<^verbatim>\<open>params.startTime\<close>. So the request of
  2023-01-01T10:00:00.000Z, made at 2025-06-15T15:06:40.000Z, is repaired to
  2026-01-01T10:00:00.000Z, but the provider is asked for 2022-12-31 to 2023-01-02; the
  days around the repaired date are 2025-12-31 to 2026-01-02. The provider offers the
  repaired time itself, and the request ends in a conflict.
\<close>

theorem window_from_requested_date:
  assumes "truthyV (map_of p ''name'')" and "truthyV (map_of p ''email'')"
    and "truthyV (map_of p ''startTime'')" and "truthyV (map_of p ''timeZone'')"
    and "newDate env (the (map_of p ''startTime'')) = Inr (Some b)"
    and "dateRepair env b p = (p', None)"
    and "availabilityWindow (LocalTZA env) b 1 1 = Inr (startDate, endDate)"
  shows "params_after (createBooking env cfg (Some (JObj p))) = Some (JObj p')
       \<and> (\<exists>rest. calls (createBooking env cfg (Some (JObj p))) =
             GetAvailability (orElse (map_of p' ''eventTypeId'') (Some (cal_eventTypeId cfg)))
               startDate endDate (map_of p ''timeZone'') # rest)"
proof -
  let ?et = "orElse (map_of p' ''eventTypeId'') (Some (cal_eventTypeId cfg))"
  have v: "\<not> nullish (Some (JObj p))" "\<And>k. param (Some (JObj p)) k = map_of p k"
    by (simp_all add: nullish_def param_def)
  obtain r cs where pre: "preflight env cfg ?et b p p' = (r, cs)"
    by (cases "preflight env cfg ?et b p p'")
  from preflight_first_call [OF assms(7), of cfg ?et p p'] pre
  obtain rest where cs: "cs = GetAvailability ?et startDate endDate (map_of p ''timeZone'') # rest"
    by auto
  show ?thesis
  proof (cases r)
    case (Inr resp)
    then show ?thesis
      using assms(1-6) pre cs by (simp add: createBooking_def v Let_def)
  next
    case (Inl e)
    obtain r' cs' where ob: "onBookingError env cfg ?et b p e cs = (r', cs')"
      by (cases "onBookingError env cfg ?et b p e cs")
    from onBookingError_calls [of env cfg ?et b p e cs] ob
    obtain more where "cs' = cs @ more" by auto
    then show ?thesis
      using assms(1-6) pre cs Inl ob by (simp add: createBooking_def v Let_def)
  qed
qed

theorem window_from_requested_date_witness:
  "createBooking (bookingEnv [\<lparr>time = 1767261600000\<rparr>]) sharedConfig
     (Some (JObj [(''name'', JStr ''Ada''), (''email'', JStr ''ada@example.org''),
                  (''startTime'', JStr ''2023-01-01T10:00:00.000Z''),
                  (''timeZone'', JStr ''UTC'')]))
   = \<lparr>result = Inr (conflictResponse [\<lparr>time = 1767261600000\<rparr>]),
      params_after = Some (JObj [(''name'', JStr ''Ada''), (''email'', JStr ''ada@example.org''),
                                 (''startTime'', JStr ''2026-01-01T10:00:00.000Z''),
                                 (''timeZone'', JStr ''UTC'')]),
      calls = [GetAvailability (Some (JStr ''2077162'')) ''2022-12-31'' ''2023-01-02''
                 (Some (JStr ''UTC''))]\<rparr>
   \<and> isoString 1767261600000 = ''2026-01-01T10:00:00.000Z''
   \<and> availabilityWindow utc 1767261600000 1 1 = Inr (''2025-12-31'', ''2026-01-02'')"
proof -
  let ?env = "bookingEnv [\<lparr>time = 1767261600000\<rparr>]"
  let ?p = "[(''name'', JStr ''Ada''), (''email'', JStr ''ada@example.org''),
             (''startTime'', JStr ''2023-01-01T10:00:00.000Z''), (''timeZone'', JStr ''UTC'')]"
  let ?p' = "[(''name'', JStr ''Ada''), (''email'', JStr ''ada@example.org''),
              (''startTime'', JStr ''2026-01-01T10:00:00.000Z''), (''timeZone'', JStr ''UTC'')]"
  have 1: "truthyV (map_of ?p ''name'')" and 2: "truthyV (map_of ?p ''email'')"
    and 3: "truthyV (map_of ?p ''startTime'')" and 4: "truthyV (map_of ?p ''timeZone'')"
    by code_simp+
  have 5: "newDate ?env (the (map_of ?p ''startTime'')) = Inr (Some 1672567200000)"
    by code_simp
  have 6: "dateRepair ?env 1672567200000 ?p = (?p', None)"
    by code_simp
  have 7: "availabilityWindow (LocalTZA ?env) 1672567200000 1 1 = Inr (''2022-12-31'', ''2023-01-02'')"
    by code_simp
  have et: "orElse (map_of ?p' ''eventTypeId'') (Some (cal_eventTypeId sharedConfig))
      = Some (JStr ''2077162'')"
    by code_simp
  have tz: "map_of ?p ''timeZone'' = Some (JStr ''UTC'')"
    by simp
  from window_from_requested_date [OF 1 2 3 4 5 6 7, of sharedConfig, THEN conjunct2]
  obtain rest where first: "calls (createBooking ?env sharedConfig (Some (JObj ?p)))
      = GetAvailability (Some (JStr ''2077162'')) ''2022-12-31'' ''2023-01-02''
          (Some (JStr ''UTC'')) # rest"
    unfolding et tz by blast
  have rest: "result (createBooking ?env sharedConfig (Some (JObj ?p)))
        = Inr (conflictResponse [\<lparr>time = 1767261600000\<rparr>])"
    "params_after (createBooking ?env sharedConfig (Some (JObj ?p))) = Some (JObj ?p')"
    "length (calls (createBooking ?env sharedConfig (Some (JObj ?p)))) = 1"
    by code_simp+
  have cs: "calls (createBooking ?env sharedConfig (Some (JObj ?p)))
      = [GetAvailability (Some (JStr ''2077162'')) ''2022-12-31'' ''2023-01-02''
           (Some (JStr ''UTC''))]"
    using first rest(3) by simp
  have w: "isoString 1767261600000 = ''2026-01-01T10:00:00.000Z''"
    "availabilityWindow utc 1767261600000 1 1 = Inr (''2025-12-31'', ''2026-01-02'')"
    by code_simp+
  have "createBooking ?env sharedConfig (Some (JObj ?p))
      = \<lparr>result = Inr (conflictResponse [\<lparr>time = 1767261600000\<rparr>]),
         params_after = Some (JObj ?p'),
         calls = [GetAvailability (Some (JStr ''2077162'')) ''2022-12-31'' ''2023-01-02''
                    (Some (JStr ''UTC''))]\<rparr>"
    using rest(1,2) cs by (cases "createBooking ?env sharedConfig (Some (JObj ?p))") simp
  with w show ?thesis by simp
qed

text \<open>
  The window is made of local midnights, written in UTC. For the start
  2025-07-01T10:15:00.000Z, a host in UTC asks for 2025-06-30 to 2025-07-02, and a host
  in Tokyo, where the day begins at 15:00 UTC, for 2025-06-29 to 2025-07-01.
\<close>

lemma window_in_two_zones:
  "isoString 1751364900000 = ''2025-07-01T10:15:00.000Z''
   \<and> availabilityWindow utc 1751364900000 1 1 = Inr (''2025-06-30'', ''2025-07-02'')
   \<and> availabilityWindow tokyo 1751364900000 1 1 = Inr (''2025-06-29'', ''2025-07-01'')"
  by code_simp

lemma no_alternatives_iff: "findAlternativeTimeSlots slots t0 5 = [] \<longleftrightarrow> slots = []"
proof -
  have "length (findAlternativeTimeSlots slots t0 5) = min 5 (length slots)"
    by (simp add: findAlternativeTimeSlots_def min.commute)
  then show ?thesis by (metis length_0_conv min_0R min_def zero_neq_numeral)
qed

text \<open>
  Claim C4, as amended. When the request is valid, the repair leaves parameters \<open>p'\<close>, the
  provider answers the query for the days around the requested start with slots, and
  the start is not among them, the response has status 409, \<^verbatim>\<open>success: false\<close> and the
  alternatives that \<^verbatim>\<open>findAlternativeTimeSlots\<close> ranks: at most five, and none exactly
  when the provider returned no slot.
\<close>

theorem conflict_carries_ranked_alternatives:
  assumes "truthyV (map_of p ''name'')" and "truthyV (map_of p ''email'')"
    and "truthyV (map_of p ''startTime'')" and "truthyV (map_of p ''timeZone'')"
    and "newDate env (the (map_of p ''startTime'')) = Inr (Some b)"
    and "dateRepair env b p = (p', None)"
    and "availabilityWindow (LocalTZA env) b 1 1 = Inr (startDate, endDate)"
    and "calApi_getAvailability env cfg
           (orElse (map_of p' ''eventTypeId'') (Some (cal_eventTypeId cfg)))
           startDate endDate (map_of p ''timeZone'') = Inr formattedAvailability"
    and "\<not> isTimeSlotAvailable formattedAvailability b"
  shows "result (createBooking env cfg (Some (JObj p))) =
           Inr \<lparr>statusCode = 409, headers = None,
                body = JObj
                  [(''success'', JBool False),
                   (''error'', JStr ''Requested time slot is not available''),
                   (''alternativeSlots'',
                    JArr (map slotJson (findAlternativeTimeSlots formattedAvailability b 5))),
                   (''message'', JStr (''The requested time slot is not available. '' @
                      ''Please choose from the alternative slots provided.''))]\<rparr>
         \<and> length (findAlternativeTimeSlots formattedAvailability b 5) \<le> 5
         \<and> (findAlternativeTimeSlots formattedAvailability b 5 = [] \<longleftrightarrow>
              formattedAvailability = [])"
proof -
  have v: "\<not> nullish (Some (JObj p))" "\<And>k. param (Some (JObj p)) k = map_of p k"
    by (simp_all add: nullish_def param_def)
  have pre: "preflight env cfg (orElse (map_of p' ''eventTypeId'') (Some (cal_eventTypeId cfg)))
               b p p'
      = (Inr (conflictResponse (findAlternativeTimeSlots formattedAvailability b 5)),
         [GetAvailability (orElse (map_of p' ''eventTypeId'') (Some (cal_eventTypeId cfg)))
            startDate endDate (map_of p ''timeZone'')])"
    using assms(7,8,9) by (simp add: preflight_def Let_def)
  have "result (createBooking env cfg (Some (JObj p)))
      = Inr (conflictResponse (findAlternativeTimeSlots formattedAvailability b 5))"
    using assms(1-6) by (simp add: createBooking_def v Let_def pre)
  moreover have "length (findAlternativeTimeSlots formattedAvailability b 5) \<le> 5"
    by (simp add: findAlternativeTimeSlots_def)
  ultimately show ?thesis
    by (simp add: conflictResponse_def no_alternatives_iff)
qed

theorem conflict_carries_ranked_alternatives_witness:
  "result (createBooking
      (bookingEnv [\<lparr>time = 1751360400000\<rparr>, \<lparr>time = 1751364000000\<rparr>, \<lparr>time = 1751369400000\<rparr>])
      sharedConfig
      (Some (JObj [(''name'', JStr ''Ada''), (''email'', JStr ''ada@example.org''),
                   (''startTime'', JStr ''2025-07-01T10:15:00.000Z''),
                   (''timeZone'', JStr ''UTC'')])))
   = Inr \<lparr>statusCode = 409, headers = None,
          body = JObj
            [(''success'', JBool False),
             (''error'', JStr ''Requested time slot is not available''),
             (''alternativeSlots'',
              JArr [JObj [(''time'', JStr ''2025-07-01T10:00:00.000Z'')],
                    JObj [(''time'', JStr ''2025-07-01T09:00:00.000Z'')],
                    JObj [(''time'', JStr ''2025-07-01T11:30:00.000Z'')]]),
             (''message'', JStr (''The requested time slot is not available. '' @
                ''Please choose from the alternative slots provided.''))]\<rparr>"
proof -
  let ?sl = "[\<lparr>time = 1751360400000\<rparr>, \<lparr>time = 1751364000000\<rparr>, \<lparr>time = 1751369400000\<rparr>]"
  let ?env = "bookingEnv ?sl"
  let ?p = "[(''name'', JStr ''Ada''), (''email'', JStr ''ada@example.org''),
             (''startTime'', JStr ''2025-07-01T10:15:00.000Z''), (''timeZone'', JStr ''UTC'')]"
  have 1: "truthyV (map_of ?p ''name'')" and 2: "truthyV (map_of ?p ''email'')"
    and 3: "truthyV (map_of ?p ''startTime'')" and 4: "truthyV (map_of ?p ''timeZone'')"
    by code_simp+
  have 5: "newDate ?env (the (map_of ?p ''startTime'')) = Inr (Some 1751364900000)"
    by code_simp
  have 6: "dateRepair ?env 1751364900000 ?p = (?p, None)"
    by code_simp
  have 7: "availabilityWindow (LocalTZA ?env) 1751364900000 1 1 = Inr (''2025-06-30'', ''2025-07-02'')"
    by code_simp
  have 8: "calApi_getAvailability ?env sharedConfig
           (orElse (map_of ?p ''eventTypeId'') (Some (cal_eventTypeId sharedConfig)))
           ''2025-06-30'' ''2025-07-02'' (map_of ?p ''timeZone'') = Inr ?sl"
    by (simp add: bookingEnv_def)
  have 9: "\<not> isTimeSlotAvailable ?sl 1751364900000"
    by code_simp
  have a: "map slotJson (findAlternativeTimeSlots ?sl 1751364900000 5)
      = [JObj [(''time'', JStr ''2025-07-01T10:00:00.000Z'')],
         JObj [(''time'', JStr ''2025-07-01T09:00:00.000Z'')],
         JObj [(''time'', JStr ''2025-07-01T11:30:00.000Z'')]]"
    by code_simp
  show ?thesis
    using conflict_carries_ranked_alternatives [OF 1 2 3 4 5 6 7 8 9] unfolding a by simp
qed

text \<open>
  The claim as it stands fails when the provider has no slot in the window: the
  response is the conflict with an empty \<^verbatim>\<open>alternativeSlots\<close>.
\<close>

theorem no_slot_no_alternative_counterexample:
  "\<not> isTimeSlotAvailable [] 1751364900000
   \<and> createBooking (bookingEnv []) sharedConfig
      (Some (JObj [(''name'', JStr ''Ada''), (''email'', JStr ''ada@example.org''),
                   (''startTime'', JStr ''2025-07-01T10:15:00.000Z''),
                   (''timeZone'', JStr ''UTC'')]))
   = \<lparr>result = Inr \<lparr>statusCode = 409, headers = None,
          body = JObj
            [(''success'', JBool False),
             (''error'', JStr ''Requested time slot is not available''),
             (''alternativeSlots'', JArr []),
             (''message'', JStr (''The requested time slot is not available. '' @
                ''Please choose from the alternative slots provided.''))]\<rparr>,
      params_after = Some (JObj [(''name'', JStr ''Ada''), (''email'', JStr ''ada@example.org''),
                   (''startTime'', JStr ''2025-07-01T10:15:00.000Z''),
                   (''timeZone'', JStr ''UTC'')]),
      calls = [GetAvailability (Some (JStr ''2077162'')) ''2025-06-30'' ''2025-07-02''
                 (Some (JStr ''UTC''))]\<rparr>"
  by code_simp


end
